theory Spec2Isabelle
  imports Main "HOL-Library.Multiset" "HOL-Library.AList"
begin

section \<open>Errors, byte streams and the world the image commands act on\<close>

text \<open>
  A Go \<^verbatim>\<open>error\<close> is modelled by its message (\<^verbatim>\<open>err.Error()\<close>), a Go \<^verbatim>\<open>string\<close> and a
  \<^verbatim>\<open>[]byte\<close> by a \<^typ>\<open>string\<close> (a list of 8-bit characters).
  \<^verbatim>\<open>errors.Wrap(err, msg)\<close> and \<^verbatim>\<open>errors.Wrapf\<close> of \<^verbatim>\<open>github.com/pkg/errors\<close> yield an
  error whose message is \<^verbatim>\<open>msg + ": " + err.Error()\<close>.
\<close>

definition Wrap :: "string \<Rightarrow> string \<Rightarrow> string" where
  "Wrap err msg = msg @ '': '' @ err"

definition squote :: string where
  "squote = [CHR 0x27]"

text \<open>
  An \<^verbatim>\<open>io.Reader\<close> over a response body of the container engine is a script of the
  results its successive \<^verbatim>\<open>Read\<close> calls deliver: a chunk of data, the end-of-stream
  marker \<^verbatim>\<open>io.EOF\<close>, or another error. A reader whose script is used up keeps answering
  \<^verbatim>\<open>io.EOF\<close>. Events that follow an \<open>End_of_stream\<close> in the script are what the engine
  reports late, after the payload.
\<close>

datatype read_event = Chunk string | End_of_stream | Read_error string

text \<open>The requests the program sends to the container engine, in the order it sends them.\<close>

datatype call =
    CallSave "string list"
  | CallPull string
  | CallTag string string
  | CallPush string string
  | CallRemove string

text \<open>
  The world: the files on disk (path to contents) and the free space left, the unread part
  \<open>body\<close> of the engine response that is open, the log \<open>reads\<close> of what the reads on that
  response returned, the trace \<open>calls\<close> of engine requests, and the lines written by
  \<^verbatim>\<open>errlog.LogError\<close> and to standard output.
\<close>

record world =
  files :: "string \<rightharpoonup> string"
  quota :: nat
  body :: "read_event list"
  reads :: "read_event list"
  calls :: "call list"
  errlog :: "string list"
  stdout :: "string list"

text \<open>
  \<^verbatim>\<open>types.ImageDeleteResponseItem\<close> and \<^verbatim>\<open>types.AuthConfig\<close> of the engine's client library,
  with the fields the program uses.
\<close>

record ImageDeleteResponseItem =
  Deleted :: string
  Untagged :: string

record AuthConfig =
  Username :: string
  Password :: string

text \<open>
  Modelled from the spec: the type \<^verbatim>\<open>image.Config\<close> and its method \<^verbatim>\<open>GetE2EImage\<close> are
  declared in a file of package \<^verbatim>\<open>image\<close> that is missing. The spec's data model gives an
  ImageConfig the fields logicalName, registryHost, repositoryPath and tag, and its
  reference as \<^verbatim>\<open>registryHost + "/" + repositoryPath + ":" + tag\<close>.
\<close>

record Config =
  logicalName :: string
  registryHost :: string
  repositoryPath :: string
  tag :: string

text \<open>
  Modelled from the spec: the method \<^verbatim>\<open>GetE2EImage\<close> of \<^verbatim>\<open>Config\<close> is missing; the spec gives
  the full reference as host, \<^verbatim>\<open>/\<close>, path, \<^verbatim>\<open>:\<close>, tag.
\<close>

definition GetE2EImage :: "Config \<Rightarrow> string" where
  "GetE2EImage i = registryHost i @ ''/'' @ repositoryPath i @ '':'' @ tag i"

text \<open>The zero value of \<^verbatim>\<open>Config\<close>: what indexing a Go map yields for a key it lacks.\<close>

definition zero_Config :: Config where
  "zero_Config = \<lparr>logicalName = [], registryHost = [], repositoryPath = [], tag = []\<rparr>"

text \<open>
  A \<^verbatim>\<open>map[string]Config\<close> is kept as an association list with distinct keys. Indexing it
  is \<open>index_map\<close>; \<^verbatim>\<open>for k, v := range m\<close> visits the entries in an order chosen by the Go
  runtime (\<open>go_range\<close> below).
\<close>

type_synonym image_map = "(string \<times> Config) list"

definition index_map :: "image_map \<Rightarrow> string \<Rightarrow> Config" where
  "index_map m k = (case map_of m k of None \<Rightarrow> zero_Config | Some c \<Rightarrow> c)"

text \<open>
  The errors, other than "no such file or directory", that the operating system answers
  when it cannot walk a path: a component of the path is not a directory, a directory of
  the path may not be searched, the path is too long. \<open>path_fault\<close> below says which paths
  meet one; \<^verbatim>\<open>os.Stat\<close> and \<^verbatim>\<open>ioutil.ReadFile\<close> fail with it.
\<close>

datatype path_error = ENOTDIR | EACCES | ENAMETOOLONG

fun errno_text :: "path_error \<Rightarrow> string" where
  "errno_text ENOTDIR = ''not a directory''"
| "errno_text EACCES = ''permission denied''"
| "errno_text ENAMETOOLONG = ''file name too long''"

text \<open>
  Everything the program takes from outside its own source: the operating system, the
  engine behind \<^verbatim>\<open>client.Client\<close>, the JSON and YAML libraries, the Go runtime's map
  iteration, the cluster client, the terminal, and the built-in registry table of package
  \<^verbatim>\<open>image\<close>.
\<close>

record env =
  path_fault :: "string \<Rightarrow> path_error option"
  create_err :: "string \<Rightarrow> string option"
  image_save :: "string list \<Rightarrow> string + read_event list"
  image_pull :: "string \<Rightarrow> string + read_event list"
  image_tag :: "string \<Rightarrow> string \<Rightarrow> string option"
  image_push :: "string \<Rightarrow> string \<Rightarrow> string + read_event list"
  image_remove :: "string \<Rightarrow> string + ImageDeleteResponseItem list"
  jm_error :: "string \<Rightarrow> string option"
  json_Marshal :: "AuthConfig \<Rightarrow> string + string"
  yaml_Unmarshal :: "string \<Rightarrow> string + (string \<times> string) list"
  go_range :: "image_map \<Rightarrow> image_map"
  kubeconfig_Get :: "string option"
  getSonobuoyClient :: "string option"
  sbc_Version :: "string + string"
  new_docker_client :: "string option"
  viper_password :: "string option"
  ReadPassword :: "string + string"
  registry_defaults :: "(string \<times> string \<times> string) list"
  version_ok :: "string \<Rightarrow> bool"

section \<open>Package image: the engine operations\<close>

subsection \<open>Readers and writers\<close>

text \<open>One \<^verbatim>\<open>Read\<close> on the open response body.\<close>

definition Read :: "world \<Rightarrow> read_event \<times> world" where
  "Read w =
     (case body w of
        [] \<Rightarrow> (End_of_stream, w\<lparr>reads := reads w @ [End_of_stream]\<rparr>)
      | e # es \<Rightarrow> (e, w\<lparr>body := es, reads := reads w @ [e]\<rparr>))"

text \<open>
  \<^verbatim>\<open>os.Stat(path)\<close> finds the file, or fails because nothing exists at the path, or fails
  with another error. \<^verbatim>\<open>os.IsNotExist(err)\<close> holds for the second of these only.
\<close>

datatype stat_result = Stat_ok | Stat_not_exist | Stat_failed path_error

definition os_Stat :: "env \<Rightarrow> world \<Rightarrow> string \<Rightarrow> stat_result" where
  "os_Stat E w path =
     (case path_fault E path of
        Some err \<Rightarrow> Stat_failed err
      | None \<Rightarrow> (case files w path of None \<Rightarrow> Stat_not_exist | Some c \<Rightarrow> Stat_ok))"

definition os_IsNotExist :: "stat_result \<Rightarrow> bool" where
  "os_IsNotExist r = (r = Stat_not_exist)"

text \<open>\<^verbatim>\<open>ioutil.ReadFile(path)\<close>.\<close>

definition ReadFile :: "env \<Rightarrow> world \<Rightarrow> string \<Rightarrow> string + string" where
  "ReadFile E w path =
     (case path_fault E path of
        Some err \<Rightarrow> Inl (''open '' @ path @ '': '' @ errno_text err)
      | None \<Rightarrow>
          (case files w path of
             None \<Rightarrow> Inl (''open '' @ path @ '': no such file or directory'')
           | Some contents \<Rightarrow> Inr contents))"

text \<open>
  \<^verbatim>\<open>os.Create(path)\<close>: creates the file, or truncates the one that is there.
\<close>

definition os_Create :: "env \<Rightarrow> string \<Rightarrow> world \<Rightarrow> string option \<times> world" where
  "os_Create E path w =
     (case create_err E path of
        Some err \<Rightarrow> (Some err, w)
      | None \<Rightarrow> (None, w\<lparr>files := (files w)(path \<mapsto> [])\<rparr>))"

text \<open>
  \<^verbatim>\<open>file.Write(p)\<close>: appends what fits into the free space; a write that does not fit
  writes the part that does and returns an error.
\<close>

definition Write :: "string \<Rightarrow> string \<Rightarrow> world \<Rightarrow> nat \<times> string option \<times> world" where
  "Write path p w =
     (let n = min (length p) (quota w);
          old = (case files w path of None \<Rightarrow> [] | Some c \<Rightarrow> c);
          w' = w\<lparr>files := (files w)(path \<mapsto> old @ take n p), quota := quota w - n\<rparr>
      in (n, if n < length p then Some ''no space left on device'' else None, w'))"

definition ErrShortWrite :: string where
  "ErrShortWrite = ''short write''"

text \<open>
  \<^verbatim>\<open>io.Copy(file, out)\<close>, the loop of the Go library: read, write what was read, stop at
  the first write error, at end-of-stream (no error) or at a read error. The number of
  bytes copied is dropped, as \<^verbatim>\<open>SaveToTar\<close> drops it.
\<close>

function io_Copy :: "string \<Rightarrow> world \<Rightarrow> string option \<times> world" where
  "io_Copy dst w =
     (case Read w of
        (Chunk p, w1) \<Rightarrow>
          (if 0 < length p then
             (case Write dst p w1 of
                (nw, Some ew, w2) \<Rightarrow> (Some ew, w2)
              | (nw, None, w2) \<Rightarrow>
                  if length p \<noteq> nw then (Some ErrShortWrite, w2) else io_Copy dst w2)
           else io_Copy dst w1)
      | (End_of_stream, w1) \<Rightarrow> (None, w1)
      | (Read_error er, w1) \<Rightarrow> (Some er, w1))"
  by pat_completeness auto
termination
  by (relation "measure (\<lambda>(dst, w). length (body w))")
     (auto simp: Read_def Write_def Let_def split: list.splits if_splits)

declare io_Copy.simps [simp del]

text \<open>\<^verbatim>\<open>ioutil.ReadAll(out)\<close>: reads until end-of-stream (no error) or an error.\<close>

function ReadAll :: "world \<Rightarrow> string option \<times> world" where
  "ReadAll w =
     (case Read w of
        (Chunk p, w1) \<Rightarrow> ReadAll w1
      | (End_of_stream, w1) \<Rightarrow> (None, w1)
      | (Read_error er, w1) \<Rightarrow> (Some er, w1))"
  by pat_completeness auto
termination
  by (relation "measure (\<lambda>w. length (body w))")
     (auto simp: Read_def split: list.splits)

declare ReadAll.simps [simp del]

subsection \<open>Requests to the engine\<close>

text \<open>
  Each method of \<^verbatim>\<open>client.Client\<close> records the request in the trace and answers as the
  engine does. A request that returns a response body opens it: the body is then what
  \<open>Read\<close> reads. \<open>Close\<close> is \<^verbatim>\<open>out.Close()\<close>.
\<close>

definition open_body :: "read_event list \<Rightarrow> world \<Rightarrow> world" where
  "open_body script w = w\<lparr>body := script, reads := []\<rparr>"

definition Close :: "world \<Rightarrow> world" where
  "Close w = w\<lparr>body := []\<rparr>"

definition ImageSave :: "env \<Rightarrow> string list \<Rightarrow> world \<Rightarrow> string option \<times> world" where
  "ImageSave E images w =
     (let w1 = w\<lparr>calls := calls w @ [CallSave images]\<rparr> in
      case image_save E images of
        Inl err \<Rightarrow> (Some err, w1)
      | Inr script \<Rightarrow> (None, open_body script w1))"

definition ImagePull :: "env \<Rightarrow> string \<Rightarrow> world \<Rightarrow> string option \<times> world" where
  "ImagePull E ref w =
     (let w1 = w\<lparr>calls := calls w @ [CallPull ref]\<rparr> in
      case image_pull E ref of
        Inl err \<Rightarrow> (Some err, w1)
      | Inr script \<Rightarrow> (None, open_body script w1))"

definition ImageTag :: "env \<Rightarrow> string \<Rightarrow> string \<Rightarrow> world \<Rightarrow> string option \<times> world" where
  "ImageTag E src target w =
     (image_tag E src target, w\<lparr>calls := calls w @ [CallTag src target]\<rparr>)"

definition ImagePush :: "env \<Rightarrow> string \<Rightarrow> string \<Rightarrow> world \<Rightarrow> string option \<times> world" where
  "ImagePush E ref registryAuth w =
     (let w1 = w\<lparr>calls := calls w @ [CallPush ref registryAuth]\<rparr> in
      case image_push E ref registryAuth of
        Inl err \<Rightarrow> (Some err, w1)
      | Inr script \<Rightarrow> (None, open_body script w1))"

definition ImageRemove ::
  "env \<Rightarrow> string \<Rightarrow> world \<Rightarrow> (string + ImageDeleteResponseItem list) \<times> world" where
  "ImageRemove E ref w = (image_remove E ref, w\<lparr>calls := calls w @ [CallRemove ref]\<rparr>)"

subsection \<open>Output\<close>

definition newline :: string where
  "newline = [CHR 0x0A]"

definition Print :: "string \<Rightarrow> world \<Rightarrow> world" where
  "Print s w = w\<lparr>stdout := stdout w @ [s]\<rparr>"

definition Println :: "string \<Rightarrow> world \<Rightarrow> world" where
  "Println s w = Print (s @ newline) w"

definition LogError :: "string \<Rightarrow> world \<Rightarrow> world" where
  "LogError err w = w\<lparr>errlog := errlog w @ [err]\<rparr>"

subsection \<open>SaveToTar\<close>

text \<open>
  The deferred \<^verbatim>\<open>file.Close()\<close> changes nothing that is modelled. \<^verbatim>\<open>SaveToTar\<close> does not
  close the export stream.
\<close>

definition SaveToTar :: "env \<Rightarrow> string list \<Rightarrow> string \<Rightarrow> world \<Rightarrow> string option \<times> world" where
  "SaveToTar E images filepath w =
     (case os_Create E filepath w of
        (Some err, w1) \<Rightarrow>
          (Some (Wrap err (''Could not create tarball file '' @ squote @ filepath @ squote)), w1)
      | (None, w1) \<Rightarrow>
          (case ImageSave E images w1 of
             (Some err, w2) \<Rightarrow> (Some (Wrap err ''error saving images to tar''), w2)
           | (None, w2) \<Rightarrow>
               (case io_Copy filepath w2 of
                  (Some err, w3) \<Rightarrow>
                    (Some (Wrap err (''Could not copy the file '' @ squote @ filepath @ squote
                       @ '' data to the tarball'')), w3)
                | (None, w3) \<Rightarrow>
                    (case ReadAll w3 of
                       (Some err, w4) \<Rightarrow> (Some (Wrap err ''error exporting images''), w4)
                     | (None, w4) \<Rightarrow> (None, w4)))))"

subsection \<open>PullImage, DeleteImage, TagImage\<close>

text \<open>
  \<^verbatim>\<open>streamDockerMessages\<close> hands the body to \<^verbatim>\<open>jsonmessage.DisplayJSONMessagesStream\<close>, which
  decodes one message after the other until end-of-stream and stops with an error at a
  read error, at a message that does not decode or at one that carries an error
  (\<open>jm_error\<close>). Each chunk of the script is one message; what is shown on the terminal
  is left out.
\<close>

function streamDockerMessages :: "env \<Rightarrow> world \<Rightarrow> string option \<times> world" where
  "streamDockerMessages E w =
     (case Read w of
        (Chunk p, w1) \<Rightarrow>
          (case jm_error E p of
             Some err \<Rightarrow> (Some err, w1)
           | None \<Rightarrow> streamDockerMessages E w1)
      | (End_of_stream, w1) \<Rightarrow> (None, w1)
      | (Read_error er, w1) \<Rightarrow> (Some er, w1))"
  by pat_completeness auto
termination
  by (relation "measure (\<lambda>(E, w). length (body w))")
     (auto simp: Read_def split: list.splits)

declare streamDockerMessages.simps [simp del]

definition PullImage :: "env \<Rightarrow> Config \<Rightarrow> world \<Rightarrow> string option \<times> world" where
  "PullImage E img w =
     (case ImagePull E (GetE2EImage img) w of
        (Some err, w1) \<Rightarrow> (Some (Wrap err (''error pulling image: '' @ GetE2EImage img)), w1)
      | (None, w1) \<Rightarrow>
          (case streamDockerMessages E w1 of
             (Some err, w2) \<Rightarrow>
               (Some (Wrap err (''error pulling image: '' @ GetE2EImage img)), Close w2)
           | (None, w2) \<Rightarrow>
               (case ReadAll w2 of
                  (Some err, w3) \<Rightarrow>
                    (Some (Wrap err (''error pulling image: '' @ GetE2EImage img)), Close w3)
                | (None, w3) \<Rightarrow> (None, Close w3))))"

definition DeleteImage ::
  "env \<Rightarrow> Config \<Rightarrow> world \<Rightarrow> (ImageDeleteResponseItem list \<times> string option) \<times> world" where
  "DeleteImage E img w =
     (case ImageRemove E (GetE2EImage img) w of
        (Inl err, w1) \<Rightarrow>
          (([], Some (Wrap err (''error deleting image: '' @ GetE2EImage img))), w1)
      | (Inr out, w1) \<Rightarrow> ((out, None), w1))"

definition TagImage :: "env \<Rightarrow> Config \<Rightarrow> Config \<Rightarrow> world \<Rightarrow> string option \<times> world" where
  "TagImage E srcimg destimg w =
     (let w0 = Print (''Tagging image: '' @ GetE2EImage srcimg @ '' to '' @ GetE2EImage destimg
                 @ newline) w
      in case ImageTag E (GetE2EImage srcimg) (GetE2EImage destimg) w0 of
           (Some err, w1) \<Rightarrow>
             (Some (Wrap err (''error tagging image: '' @ GetE2EImage destimg)), w1)
         | (None, w1) \<Rightarrow> (None, w1))"

subsection \<open>PushImage\<close>

text \<open>
  \<^verbatim>\<open>base64.URLEncoding.EncodeToString\<close>: base64 with the URL-safe alphabet of RFC 4648
  (\<^verbatim>\<open>-\<close> and \<^verbatim>\<open>_\<close> for the values 62 and 63) and \<^verbatim>\<open>=\<close> padding.
\<close>

definition encodeURL :: string where
  "encodeURL = ''ABCDEFGHIJKLMNOPQRSTUVWXYZabcdefghijklmnopqrstuvwxyz0123456789-_''"

definition enc6 :: "nat \<Rightarrow> char" where
  "enc6 n = encodeURL ! (n mod 64)"

fun EncodeToString :: "string \<Rightarrow> string" where
  "EncodeToString [] = []"
| "EncodeToString [a] =
     (let x = (of_char a :: nat) in
      [enc6 (x div 4), enc6 ((x mod 4) * 16), CHR ''='', CHR ''=''])"
| "EncodeToString [a, b] =
     (let x = (of_char a :: nat); y = (of_char b :: nat) in
      [enc6 (x div 4), enc6 ((x mod 4) * 16 + y div 16), enc6 ((y mod 16) * 4), CHR ''=''])"
| "EncodeToString (a # b # c # rest) =
     (let x = (of_char a :: nat); y = (of_char b :: nat); z = (of_char c :: nat) in
      [enc6 (x div 4), enc6 ((x mod 4) * 16 + y div 16), enc6 ((y mod 16) * 4 + z div 64),
       enc6 (z mod 64)] @ EncodeToString rest)"

definition PushImage :: "env \<Rightarrow> Config \<Rightarrow> AuthConfig \<Rightarrow> world \<Rightarrow> string option \<times> world" where
  "PushImage E img auth w =
     (case json_Marshal E auth of
        Inl err \<Rightarrow> (Some (Wrap err ''error marshaling username/password''), w)
      | Inr authBytes \<Rightarrow>
          (let authBase64 = EncodeToString authBytes in
           case ImagePush E (GetE2EImage img) authBase64 w of
             (Some err, w1) \<Rightarrow>
               (Some (Wrap err (''error pushing image: '' @ GetE2EImage img)), w1)
           | (None, w1) \<Rightarrow>
               (case streamDockerMessages E w1 of
                  (Some err, w2) \<Rightarrow>
                    (Some (Wrap err (''error uploading image: '' @ GetE2EImage img)), Close w2)
                | (None, w2) \<Rightarrow>
                    (case ReadAll w2 of
                       (Some err, w3) \<Rightarrow>
                         (Some (Wrap err (''error uploading image: '' @ GetE2EImage img)),
                          Close w3)
                     | (None, w3) \<Rightarrow> (None, Close w3)))))"

definition GetTarFileName :: "string \<Rightarrow> string" where
  "GetTarFileName version = ''kubernetes_e2e_images_'' @ version @ ''.tar''"

subsection \<open>The registry list and GetImages\<close>

text \<open>
  Modelled from the spec: \<^verbatim>\<open>NewRegistryList\<close> and \<^verbatim>\<open>GetImageConfigs\<close> are defined in a file of
  package \<^verbatim>\<open>image\<close> that is missing. The spec (RegistryList, operation Load) says: build the
  default built-in table from logical name to registry path; if the override file path is
  non-empty, read the file and parse it as a flat string mapping, and replace the registry
  host and path of the entries it names; fail with OverrideFileNotFound if the path is set
  but the file cannot be read, and with OverrideParseError if the content does not parse;
  the tag of every entry is the version. The VersionResolver fails with InvalidVersion on
  a version that is empty or does not parse. An override value is \<^verbatim>\<open>host/path\<close>, as in the
  spec's example \<^verbatim>\<open>conformance -> "myregistry.local/conformance"\<close>.
\<close>

record RegistryList =
  entries :: "(string \<times> string \<times> string) list"
  K8sVersion :: string

definition OverrideFileNotFound :: "string \<Rightarrow> string" where
  "OverrideFileNotFound path = ''OverrideFileNotFound: '' @ path"

definition OverrideParseError :: "string \<Rightarrow> string" where
  "OverrideParseError err = ''OverrideParseError: '' @ err"

definition InvalidVersion :: string where
  "InvalidVersion = ''InvalidVersion''"

definition split_base :: "string \<Rightarrow> string \<times> string" where
  "split_base s =
     (takeWhile (\<lambda>c. c \<noteq> CHR ''/'') s, drop 1 (dropWhile (\<lambda>c. c \<noteq> CHR ''/'') s))"

definition apply_override ::
  "(string \<times> string) list \<Rightarrow> string \<times> string \<times> string \<Rightarrow> string \<times> string \<times> string" where
  "apply_override ov e =
     (case e of (n, h, p) \<Rightarrow>
        (case map_of ov n of
           None \<Rightarrow> (n, h, p)
         | Some r \<Rightarrow> (n, fst (split_base r), snd (split_base r))))"

text \<open>
  Modelled from the spec: \<^verbatim>\<open>NewRegistryList\<close> is missing; this is the spec's Load. An empty
  path reads no file.
\<close>

definition NewRegistryList :: "env \<Rightarrow> string \<Rightarrow> string \<Rightarrow> world \<Rightarrow> string + RegistryList" where
  "NewRegistryList E repoConfig k8sVersion w =
     (if repoConfig = [] then
        Inr \<lparr>entries = registry_defaults E, K8sVersion = k8sVersion\<rparr>
      else
        (case ReadFile E w repoConfig of
           Inl err \<Rightarrow> Inl (OverrideFileNotFound repoConfig)
         | Inr contents \<Rightarrow>
             (case yaml_Unmarshal E contents of
                Inl err \<Rightarrow> Inl (OverrideParseError err)
              | Inr ov \<Rightarrow>
                  Inr \<lparr>entries = map (apply_override ov) (registry_defaults E),
                       K8sVersion = k8sVersion\<rparr>)))"

definition add_entry :: "string \<Rightarrow> string \<times> string \<times> string \<Rightarrow> image_map \<Rightarrow> image_map" where
  "add_entry version e m =
     (case e of (n, h, p) \<Rightarrow>
        AList.update n
          \<lparr>logicalName = n, registryHost = h, repositoryPath = p, tag = version\<rparr> m)"

text \<open>
  Modelled from the spec: \<^verbatim>\<open>GetImageConfigs\<close> is missing; it yields the map from logical name
  to \<^verbatim>\<open>Config\<close>, every entry tagged with the version, or InvalidVersion.
\<close>

definition GetImageConfigs :: "env \<Rightarrow> RegistryList \<Rightarrow> string + image_map" where
  "GetImageConfigs E reg =
     (if K8sVersion reg = [] \<or> \<not> version_ok E (K8sVersion reg) then Inl InvalidVersion
      else Inr (fold (add_entry (K8sVersion reg)) (entries reg) []))"

text \<open>\<^verbatim>\<open>GetImages\<close>, from the source.\<close>

definition GetImages :: "env \<Rightarrow> string \<Rightarrow> string \<Rightarrow> world \<Rightarrow> string + image_map" where
  "GetImages E e2eRegistryConfig version w =
     (case NewRegistryList E e2eRegistryConfig version w of
        Inl err \<Rightarrow> Inl (Wrap err ''couldn't init Registry List'')
      | Inr reg \<Rightarrow>
          (case GetImageConfigs E reg of
             Inl err \<Rightarrow> Inl (Wrap err ''couldn't get images for version'')
           | Inr imgs \<Rightarrow> Inr imgs))"

section \<open>Package app: the images commands\<close>

text \<open>
  A command ends by returning, by \<^verbatim>\<open>os.Exit\<close> with a status, or by a panic. The flag
  variable \<^verbatim>\<open>imagesflags\<close> is passed in; the \<^verbatim>\<open>kubeconfig\<close> flag is part of the
  environment (\<open>kubeconfig_Get\<close>).
\<close>

datatype outcome = Returned | Exited nat | Panicked string

record imagesFlags =
  e2eRegistryConfig :: string
  plugin :: string
  username :: string
  password :: string
  imagesSaveFileName :: string
  downloadTar :: bool

definition file_missing :: "string \<Rightarrow> string" where
  "file_missing path = ''file does not exist or cannot be opened: '' @ path"

definition unsupported_plugin :: "string \<Rightarrow> string" where
  "unsupported_plugin p = ''Unsupported plugin: '' @ p"

subsection \<open>listImages\<close>

text \<open>
  \<open>print_images\<close> is the loop that prints the references; \<open>listImages_e2e\<close> is the branch of
  the plugin \<^verbatim>\<open>e2e\<close>. The existence check of the override file precedes the switch on the
  plugin.
\<close>

fun print_images :: "image_map \<Rightarrow> world \<Rightarrow> world" where
  "print_images [] w = w"
| "print_images ((k, v) # rest) w = print_images rest (Println (GetE2EImage v) w)"

definition listImages_e2e :: "env \<Rightarrow> world \<Rightarrow> outcome \<times> world" where
  "listImages_e2e E w =
     (case kubeconfig_Get E of
        Some err \<Rightarrow> (Exited 1, LogError (Wrap err ''couldn't get REST client'') w)
      | None \<Rightarrow>
     (case getSonobuoyClient E of
        Some err \<Rightarrow> (Exited 1, LogError (Wrap err ''could not create sonobuoy client'') w)
      | None \<Rightarrow>
     (case sbc_Version E of
        Inl err \<Rightarrow> (Exited 1, LogError (Wrap err ''couldn't get Sonobuoy client'') w)
      | Inr version \<Rightarrow>
     (case NewRegistryList E [] version w of
        Inl err \<Rightarrow> (Exited 1, LogError (Wrap err ''couldn't init Registry List'') w)
      | Inr registry \<Rightarrow>
     (case GetImageConfigs E registry of
        Inl err \<Rightarrow> (Exited 1, LogError (Wrap err ''couldn't get images for version'') w)
      | Inr images \<Rightarrow> (Returned, print_images (go_range E images) w))))))"

definition listImages :: "env \<Rightarrow> imagesFlags \<Rightarrow> world \<Rightarrow> outcome \<times> world" where
  "listImages E fl w =
     (if 0 < length (e2eRegistryConfig fl) \<and>
         os_IsNotExist (os_Stat E w (e2eRegistryConfig fl)) then
        (Exited 1, LogError (file_missing (e2eRegistryConfig fl)) w)
      else if plugin fl = ''e2e'' then listImages_e2e E w
      else (Exited 1, LogError (unsupported_plugin (plugin fl)) w))"

subsection \<open>pullImages\<close>

text \<open>\<open>pull_loop\<close> is the loop over the resolved images: a failed pull is logged and the loop goes on.\<close>

fun pull_loop :: "env \<Rightarrow> image_map \<Rightarrow> world \<Rightarrow> world" where
  "pull_loop E [] w = w"
| "pull_loop E ((k, v) # rest) w =
     (case PullImage E v w of
        (Some err, w1) \<Rightarrow>
          pull_loop E rest
            (Println ''########''
               (LogError (Wrap err (''couldn't pull image: '' @ GetE2EImage v)) w1))
      | (None, w1) \<Rightarrow> pull_loop E rest (Println ''########'' w1))"

definition pullImages :: "env \<Rightarrow> imagesFlags \<Rightarrow> world \<Rightarrow> outcome \<times> world" where
  "pullImages E fl w =
     (if plugin fl = ''e2e'' then
     (case kubeconfig_Get E of
        Some err \<Rightarrow> (Exited 1, LogError (Wrap err ''couldn't get REST client'') w)
      | None \<Rightarrow>
     (case getSonobuoyClient E of
        Some err \<Rightarrow> (Exited 1, LogError (Wrap err ''could not create sonobuoy client'') w)
      | None \<Rightarrow>
     (case sbc_Version E of
        Inl err \<Rightarrow> (Exited 1, LogError (Wrap err ''couldn't get Sonobuoy client'') w)
      | Inr version \<Rightarrow>
     (case GetImages E [] version w of
        Inl err \<Rightarrow> (Exited 1, LogError (Wrap err ''couldn't init upstream registry list'') w)
      | Inr upstreamImages \<Rightarrow>
     (case new_docker_client E of
        Some err \<Rightarrow> (Exited 1, LogError (Wrap err ''couldn't init docker client'') w)
      | None \<Rightarrow> (Returned, pull_loop E (go_range E upstreamImages) w))))))
      else (Exited 1, LogError (unsupported_plugin (plugin fl)) w))"

subsection \<open>downloadImages\<close>

definition downloadImages :: "env \<Rightarrow> imagesFlags \<Rightarrow> world \<Rightarrow> outcome \<times> world" where
  "downloadImages E fl w =
     (if plugin fl = ''e2e'' then
     (case kubeconfig_Get E of
        Some err \<Rightarrow> (Exited 1, LogError (Wrap err ''couldn't get REST client'') w)
      | None \<Rightarrow>
     (case getSonobuoyClient E of
        Some err \<Rightarrow> (Exited 1, LogError (Wrap err ''could not create sonobuoy client'') w)
      | None \<Rightarrow>
     (case sbc_Version E of
        Inl err \<Rightarrow> (Exited 1, LogError (Wrap err ''couldn't get Sonobuoy client'') w)
      | Inr version \<Rightarrow>
     (case GetImages E [] version w of
        Inl err \<Rightarrow> (Exited 1, LogError (Wrap err ''couldn't init upstream registry list'') w)
      | Inr upstreamImages \<Rightarrow>
     (case new_docker_client E of
        Some err \<Rightarrow> (Exited 1, LogError (Wrap err ''couldn't init docker client'') w)
      | None \<Rightarrow>
     (let images = map (\<lambda>(k, v). GetE2EImage v) (go_range E upstreamImages) in
      case SaveToTar E images (GetTarFileName version) w of
        (Some err, w1) \<Rightarrow> (Exited 1, LogError (Wrap err ''couldn't save images to tar'') w1)
      | (None, w1) \<Rightarrow> (Returned, w1)))))))
      else (Exited 1, LogError (unsupported_plugin (plugin fl)) w))"

subsection \<open>pushImages\<close>

text \<open>
  The password of the registry user: \<^verbatim>\<open>viper.Get("password").(string)\<close> panics when the
  value is not a string (\<open>viper_password\<close> is \<open>None\<close>); an empty value makes the command
  prompt for the password on the terminal.
\<close>

definition registry_password :: "env \<Rightarrow> imagesFlags \<Rightarrow> world \<Rightarrow> (outcome + imagesFlags) \<times> world" where
  "registry_password E fl w =
     (if 0 < length (username fl) then
        (case viper_password E of
           None \<Rightarrow> (Inl (Panicked ''interface conversion: interface {} is not string''), w)
         | Some envPassword \<Rightarrow>
             if length envPassword = 0 then
               (let w1 = Print ''Registry password: '' w in
                case ReadPassword E of
                  Inl err \<Rightarrow>
                    (Inl (Exited 1), LogError (Wrap err ''couldn't get password from user'') w1)
                | Inr bytePassword \<Rightarrow> (Inr (fl\<lparr>password := bytePassword\<rparr>), Print newline w1))
             else (Inr (fl\<lparr>password := envPassword\<rparr>), w))
      else (Inr fl, w))"

text \<open>
  \<open>push_loop\<close> is the loop over the source images: tag, log a failure, push, log a failure.
  \<open>pushImages_resolved\<close> is the command from the cluster client on, run with the flags as
  the password step left them.
\<close>

fun push_loop :: "env \<Rightarrow> AuthConfig \<Rightarrow> image_map \<Rightarrow> image_map \<Rightarrow> world \<Rightarrow> world" where
  "push_loop E auth privateImages [] w = w"
| "push_loop E auth privateImages ((k, v) # rest) w =
     (let (err1, w1) = TagImage E v (index_map privateImages k) w;
          w2 = (case err1 of
                  Some err \<Rightarrow> LogError (Wrap err (''couldn't tag image: '' @ GetE2EImage v)) w1
                | None \<Rightarrow> w1);
          (err2, w3) = PushImage E (index_map privateImages k) auth w2;
          w4 = (case err2 of
                  Some err \<Rightarrow> LogError (Wrap err (''couldn't push image: '' @ GetE2EImage v)) w3
                | None \<Rightarrow> w3)
      in push_loop E auth privateImages rest (Println ''########'' w4))"

definition pushImages_resolved :: "env \<Rightarrow> imagesFlags \<Rightarrow> world \<Rightarrow> outcome \<times> world" where
  "pushImages_resolved E fl w =
     (case kubeconfig_Get E of
        Some err \<Rightarrow> (Exited 1, LogError (Wrap err ''couldn't get REST client'') w)
      | None \<Rightarrow>
     (case getSonobuoyClient E of
        Some err \<Rightarrow> (Exited 1, LogError (Wrap err ''could not create sonobuoy client'') w)
      | None \<Rightarrow>
     (case sbc_Version E of
        Inl err \<Rightarrow> (Exited 1, LogError (Wrap err ''couldn't get Sonobuoy client'') w)
      | Inr version \<Rightarrow>
     (case GetImages E [] version w of
        Inl err \<Rightarrow> (Exited 1, LogError (Wrap err ''couldn't init upstream registry list'') w)
      | Inr upstreamImages \<Rightarrow>
     (case GetImages E (e2eRegistryConfig fl) version w of
        Inl err \<Rightarrow> (Exited 1, LogError (Wrap err ''couldn't init upstream registry list'') w)
      | Inr privateImages \<Rightarrow>
     (case new_docker_client E of
        Some err \<Rightarrow> (Exited 1, LogError (Wrap err ''couldn't init docker client'') w)
      | None \<Rightarrow>
     (let auth = \<lparr>Username = username fl, Password = password fl\<rparr> in
      (Returned, push_loop E auth privateImages (go_range E upstreamImages) w))))))))"

definition pushImages :: "env \<Rightarrow> imagesFlags \<Rightarrow> world \<Rightarrow> outcome \<times> world" where
  "pushImages E fl w =
     (if plugin fl = ''e2e'' then
        (if os_IsNotExist (os_Stat E w (e2eRegistryConfig fl)) then
           (Exited 1, LogError (file_missing (e2eRegistryConfig fl)) w)
         else
           (case registry_password E fl w of
              (Inl out, w1) \<Rightarrow> (out, w1)
            | (Inr fl1, w1) \<Rightarrow> pushImages_resolved E fl1 w1))
      else (Exited 1, LogError (unsupported_plugin (plugin fl)) w))"

subsection \<open>deleteImages\<close>

text \<open>
  \<open>print_deleted\<close> prints what the engine reports for one image, \<open>delete_loop\<close> is the loop
  over the resolved images. A failed \<^verbatim>\<open>DeleteImage\<close> returns no response items.
\<close>

fun print_deleted :: "ImageDeleteResponseItem list \<Rightarrow> world \<Rightarrow> world" where
  "print_deleted [] w = w"
| "print_deleted (r # rest) w =
     (let w1 = Print (''Deleted: '' @ Deleted r @ newline) w;
          w2 = (if 0 < length (Untagged r) then Print (''Untagged: '' @ Untagged r @ newline) w1
                else w1)
      in print_deleted rest w2)"

fun delete_loop :: "env \<Rightarrow> image_map \<Rightarrow> world \<Rightarrow> world" where
  "delete_loop E [] w = w"
| "delete_loop E ((k, v) # rest) w =
     (case DeleteImage E v w of
        ((resp, Some err), w1) \<Rightarrow>
          delete_loop E rest
            (Println ''########''
               (print_deleted resp
                  (LogError (Wrap err (''couldn't delete image: '' @ GetE2EImage v)) w1)))
      | ((resp, None), w1) \<Rightarrow> delete_loop E rest (Println ''########'' (print_deleted resp w1)))"

definition deleteImages :: "env \<Rightarrow> imagesFlags \<Rightarrow> world \<Rightarrow> outcome \<times> world" where
  "deleteImages E fl w =
     (if plugin fl = ''e2e'' then
     (case kubeconfig_Get E of
        Some err \<Rightarrow> (Exited 1, LogError (Wrap err ''couldn't get REST client'') w)
      | None \<Rightarrow>
     (case getSonobuoyClient E of
        Some err \<Rightarrow> (Exited 1, LogError (Wrap err ''could not create sonobuoy client'') w)
      | None \<Rightarrow>
     (case sbc_Version E of
        Inl err \<Rightarrow> (Exited 1, LogError (Wrap err ''couldn't get Sonobuoy client'') w)
      | Inr version \<Rightarrow>
     (case GetImages E (e2eRegistryConfig fl) version w of
        Inl err \<Rightarrow> (Exited 1, LogError (Wrap err ''couldn't init upstream registry list'') w)
      | Inr upstreamImages \<Rightarrow>
     (case new_docker_client E of
        Some err \<Rightarrow> (Exited 1, LogError (Wrap err ''couldn't init docker client'') w)
      | None \<Rightarrow> (Returned, delete_loop E (go_range E upstreamImages) w))))))
      else (Exited 1, LogError (unsupported_plugin (plugin fl)) w))"

section \<open>Package app: GetE2EConfig\<close>

text \<open>
  A \<^verbatim>\<open>pflag.FlagSet\<close> as the two methods \<^verbatim>\<open>GetE2EConfig\<close> calls, and \<^verbatim>\<open>ops.E2EConfig\<close> with
  the fields it sets. The configuration of the mode (\<^verbatim>\<open>mode.Get().E2EConfig\<close>) is the
  argument \<open>cfg\<close>.
\<close>

record FlagSet =
  Changed :: "string \<Rightarrow> bool"
  GetString :: "string \<Rightarrow> string + string"

record E2EConfig =
  Focus :: string
  Skip :: string
  Parallel :: string
  CustomRegistries :: string

definition e2eFocusFlag :: string where "e2eFocusFlag = ''e2e-focus''"
definition e2eSkipFlag :: string where "e2eSkipFlag = ''e2e-skip''"
definition e2eParallelFlag :: string where "e2eParallelFlag = ''e2e-parallel''"
definition e2eRegistryConfigFlag :: string where "e2eRegistryConfigFlag = ''e2e-repo-config''"

text \<open>
  The four blocks of \<^verbatim>\<open>GetE2EConfig\<close>, in the order of the source: each sets one field from
  its flag when the flag was changed, and the first error ends the function.
\<close>

definition set_focus :: "FlagSet \<Rightarrow> E2EConfig \<Rightarrow> string + E2EConfig" where
  "set_focus flags cfg =
     (if Changed flags e2eFocusFlag then
        (case GetString flags e2eFocusFlag of
           Inl err \<Rightarrow> Inl (Wrap err ''couldn't retrieve focus flag'')
         | Inr focus \<Rightarrow> Inr (cfg\<lparr>Focus := focus\<rparr>))
      else Inr cfg)"

definition set_skip :: "FlagSet \<Rightarrow> E2EConfig \<Rightarrow> string + E2EConfig" where
  "set_skip flags cfg =
     (if Changed flags e2eSkipFlag then
        (case GetString flags e2eSkipFlag of
           Inl err \<Rightarrow> Inl (Wrap err ''couldn't retrieve skip flag'')
         | Inr skip \<Rightarrow> Inr (cfg\<lparr>Skip := skip\<rparr>))
      else Inr cfg)"

definition set_parallel :: "FlagSet \<Rightarrow> E2EConfig \<Rightarrow> string + E2EConfig" where
  "set_parallel flags cfg =
     (if Changed flags e2eParallelFlag then
        (case GetString flags e2eParallelFlag of
           Inl err \<Rightarrow> Inl (Wrap err ''couldn't retrieve parallel flag'')
         | Inr parallel \<Rightarrow> Inr (cfg\<lparr>Parallel := parallel\<rparr>))
      else Inr cfg)"

definition set_registries :: "env \<Rightarrow> FlagSet \<Rightarrow> world \<Rightarrow> E2EConfig \<Rightarrow> string + E2EConfig" where
  "set_registries E flags w cfg =
     (if Changed flags e2eRegistryConfigFlag then
        (case GetString flags e2eRegistryConfigFlag of
           Inl err \<Rightarrow> Inl (Wrap err ''couldn't retrieve registry list flag'')
         | Inr repoFile \<Rightarrow>
             (case ReadFile E w repoFile of
                Inl err \<Rightarrow> Inl (Wrap err ''couldn't read registry list'')
              | Inr contents \<Rightarrow>
                  (case yaml_Unmarshal E contents of
                     Inl err \<Rightarrow> Inl (Wrap err ''failed to parse yaml registry list:'')
                   | Inr m \<Rightarrow> Inr (cfg\<lparr>CustomRegistries := contents\<rparr>))))
      else Inr cfg)"

definition GetE2EConfig :: "env \<Rightarrow> E2EConfig \<Rightarrow> FlagSet \<Rightarrow> world \<Rightarrow> string + E2EConfig" where
  "GetE2EConfig E cfg flags w =
     (case set_focus flags cfg of
        Inl err \<Rightarrow> Inl err
      | Inr cfg1 \<Rightarrow>
     (case set_skip flags cfg1 of
        Inl err \<Rightarrow> Inl err
      | Inr cfg2 \<Rightarrow>
     (case set_parallel flags cfg2 of
        Inl err \<Rightarrow> Inl err
      | Inr cfg3 \<Rightarrow> set_registries E flags w cfg3)))"

section \<open>Observations on a run\<close>

subsection \<open>Streams\<close>

text \<open>
  A read event is final when no data follows it: end-of-stream or an error. A response
  body has been read to its end (\<open>reached_end\<close>) when one of the reads on it returned a
  final event. \<open>late_error\<close> is the error, if any, that reading on from a position meets
  before the next end-of-stream. \<open>copy_failed\<close> and \<open>create_failed\<close> are the messages
  \<^verbatim>\<open>SaveToTar\<close> wraps a failed copy and a failed creation in.
\<close>

fun is_final :: "read_event \<Rightarrow> bool" where
  "is_final (Chunk p) = False"
| "is_final End_of_stream = True"
| "is_final (Read_error er) = True"

fun err_of :: "read_event \<Rightarrow> string option" where
  "err_of (Chunk p) = None"
| "err_of End_of_stream = None"
| "err_of (Read_error er) = Some er"

definition reached_end :: "world \<Rightarrow> bool" where
  "reached_end w = list_ex is_final (reads w)"

fun late_error :: "read_event list \<Rightarrow> string option" where
  "late_error [] = None"
| "late_error (Chunk p # es) = late_error es"
| "late_error (End_of_stream # es) = None"
| "late_error (Read_error er # es) = Some er"

definition copy_failed :: "string \<Rightarrow> string" where
  "copy_failed filepath =
     ''Could not copy the file '' @ squote @ filepath @ squote @ '' data to the tarball''"

definition create_failed :: "string \<Rightarrow> string" where
  "create_failed filepath = ''Could not create tarball file '' @ squote @ filepath @ squote"

subsection \<open>Batches\<close>

text \<open>
  \<open>world_init q\<close> is the world before a command runs: no file, \<open>q\<close> bytes free, nothing
  requested, logged or printed. What pulling or pushing one image returns does not depend
  on the world it is done in (\<open>PullImage_fst\<close> and \<open>PushImage_fst\<close> below), so it is read off
  that world. \<open>pull_log\<close>, \<open>tag_log\<close> and \<open>push_log\<close> are the lines a batch hands to
  \<^verbatim>\<open>errlog.LogError\<close> for one image, \<open>push_calls\<close> the requests the push batch sends for one
  image, and \<open>separator\<close> the line printed after each image. \<open>range_of m kvs\<close>: \<open>kvs\<close> is an
  order in which \<^verbatim>\<open>range\<close> may deliver the entries of the map \<open>m\<close>.
\<close>

definition world_init :: "nat \<Rightarrow> world" where
  "world_init q =
     \<lparr>files = Map.empty, quota = q, body = [], reads = [], calls = [], errlog = [],
      stdout = []\<rparr>"

definition pull_result :: "env \<Rightarrow> Config \<Rightarrow> string option" where
  "pull_result E img = fst (PullImage E img (world_init 0))"

definition pull_log :: "env \<Rightarrow> Config \<Rightarrow> string list" where
  "pull_log E v =
     (case pull_result E v of
        None \<Rightarrow> []
      | Some err \<Rightarrow> [Wrap err (''couldn't pull image: '' @ GetE2EImage v)])"

definition separator :: string where
  "separator = ''########'' @ newline"

definition range_of :: "image_map \<Rightarrow> image_map \<Rightarrow> bool" where
  "range_of m kvs = (distinct (map fst kvs) \<and> set kvs = set m)"

definition tag_log :: "env \<Rightarrow> Config \<Rightarrow> Config \<Rightarrow> string list" where
  "tag_log E src target =
     (case image_tag E (GetE2EImage src) (GetE2EImage target) of
        None \<Rightarrow> []
      | Some err \<Rightarrow>
          [Wrap (Wrap err (''error tagging image: '' @ GetE2EImage target))
             (''couldn't tag image: '' @ GetE2EImage src)])"

definition push_calls :: "env \<Rightarrow> AuthConfig \<Rightarrow> Config \<Rightarrow> Config \<Rightarrow> call list" where
  "push_calls E auth src target =
     CallTag (GetE2EImage src) (GetE2EImage target) #
     (case json_Marshal E auth of
        Inl err \<Rightarrow> []
      | Inr authBytes \<Rightarrow> [CallPush (GetE2EImage target) (EncodeToString authBytes)])"

definition push_result :: "env \<Rightarrow> Config \<Rightarrow> AuthConfig \<Rightarrow> string option" where
  "push_result E img auth = fst (PushImage E img auth (world_init 0))"

definition push_log :: "env \<Rightarrow> AuthConfig \<Rightarrow> Config \<Rightarrow> Config \<Rightarrow> string list" where
  "push_log E auth src target =
     (case push_result E target auth of
        None \<Rightarrow> []
      | Some err \<Rightarrow> [Wrap err (''couldn't push image: '' @ GetE2EImage src)])"

section \<open>Example environments\<close>

text \<open>
  An environment in which every collaborator succeeds, with a registry table of two
  images, and variations of it: an engine that refuses the export, a directory that cannot
  be written, an export stream that breaks, a runtime that ranges in the reverse order, a
  registry that lacks one image, an engine that refuses every tag. The export stream of
  \<open>env_ok\<close> carries two chunks, the end-of-stream marker and then a late error of the
  engine.
\<close>

definition dquote :: string where
  "dquote = [CHR 0x22]"

definition sample_json :: "AuthConfig \<Rightarrow> string" where
  "sample_json a =
     ''{'' @ dquote @ ''username'' @ dquote @ '':'' @ dquote @ Username a @ dquote @ '','' @
     dquote @ ''password'' @ dquote @ '':'' @ dquote @ Password a @ dquote @ ''}''"

definition env_ok :: env where
  "env_ok =
     \<lparr>path_fault = (\<lambda>p. None),
      create_err = (\<lambda>p. None),
      image_save = (\<lambda>images.
        Inr [Chunk ''abcdef'', Chunk ''ghi'', End_of_stream, Read_error ''layer missing'']),
      image_pull = (\<lambda>r. Inr [Chunk ''{}'', End_of_stream]),
      image_tag = (\<lambda>s t. None),
      image_push = (\<lambda>r a. Inr [End_of_stream]),
      image_remove = (\<lambda>r. Inr [\<lparr>Deleted = r, Untagged = []\<rparr>]),
      jm_error = (\<lambda>m. None),
      json_Marshal = (\<lambda>a. Inr (sample_json a)),
      yaml_Unmarshal = (\<lambda>c. Inr []),
      go_range = (\<lambda>m. m),
      kubeconfig_Get = None,
      getSonobuoyClient = None,
      sbc_Version = Inr ''1.18.0'',
      new_docker_client = None,
      viper_password = Some [],
      ReadPassword = Inr ''secret'',
      registry_defaults =
        [(''conformance'', ''k8s.gcr.io'', ''conformance''),
         (''busybox'', ''docker.io'', ''library/busybox'')],
      version_ok = (\<lambda>v. True)\<rparr>"

definition env_save_refused :: env where
  "env_save_refused = env_ok\<lparr>image_save := (\<lambda>images. Inl ''daemon unreachable'')\<rparr>"

definition env_readonly :: env where
  "env_readonly = env_ok\<lparr>create_err := (\<lambda>p. Some ''permission denied'')\<rparr>"

definition env_broken_stream :: env where
  "env_broken_stream =
     env_ok\<lparr>image_save := (\<lambda>images. Inr [Chunk ''ab'', Read_error ''connection reset''])\<rparr>"

definition env_rev :: env where
  "env_rev = env_ok\<lparr>go_range := rev\<rparr>"

definition env_pull_fails :: env where
  "env_pull_fails =
     env_ok\<lparr>image_pull := (\<lambda>r. if r = ''docker.io/library/busybox:1.18.0''
        then Inl ''manifest unknown'' else Inr [Chunk ''{}'', End_of_stream])\<rparr>"

definition env_tag_fails :: env where
  "env_tag_fails = env_ok\<lparr>image_tag := (\<lambda>s t. Some ''No such image'')\<rparr>"

text \<open>Worlds, flags, images and credentials for the examples.\<close>

definition world_old_tar :: world where
  "world_old_tar = (world_init 100)\<lparr>files := [''out.tar'' \<mapsto> ''old archive'']\<rparr>"

definition flags_e2e :: imagesFlags where
  "flags_e2e =
     \<lparr>e2eRegistryConfig = [], plugin = ''e2e'', username = [], password = [],
      imagesSaveFileName = [], downloadTar = False\<rparr>"

definition conformance_img :: Config where
  "conformance_img =
     \<lparr>logicalName = ''conformance'', registryHost = ''k8s.gcr.io'',
      repositoryPath = ''conformance'', tag = ''1.18.0''\<rparr>"

definition busybox_img :: Config where
  "busybox_img =
     \<lparr>logicalName = ''busybox'', registryHost = ''docker.io'',
      repositoryPath = ''library/busybox'', tag = ''1.18.0''\<rparr>"

definition private_busybox :: Config where
  "private_busybox =
     \<lparr>logicalName = ''busybox'', registryHost = ''registry.local'',
      repositoryPath = ''mirror/busybox'', tag = ''1.18.0''\<rparr>"

definition admin_auth :: AuthConfig where
  "admin_auth = \<lparr>Username = ''admin'', Password = ''hunter2''\<rparr>"

text \<open>
  An override file \<^verbatim>\<open>repos.yaml\<close> that moves the conformance image to a private registry, a
  YAML parser that accepts exactly that content, a file that is not a mapping, and flags
  that name the override file.
\<close>

definition override_yaml :: string where
  "override_yaml = ''conformance: myregistry.local/conformance''"

definition env_override :: env where
  "env_override =
     env_ok\<lparr>yaml_Unmarshal := (\<lambda>c. if c = override_yaml
        then Inr [(''conformance'', ''myregistry.local/conformance'')]
        else Inl ''yaml: unmarshal errors'')\<rparr>"

definition flags_override :: imagesFlags where
  "flags_override = flags_e2e\<lparr>e2eRegistryConfig := ''repos.yaml''\<rparr>"

definition world_override :: world where
  "world_override = (world_init 100)\<lparr>files := [''repos.yaml'' \<mapsto> override_yaml]\<rparr>"

definition world_malformed :: world where
  "world_malformed = (world_init 100)\<lparr>files := [''repos.yaml'' \<mapsto> ''- a list'']\<rparr>"

definition flagset_registry :: FlagSet where
  "flagset_registry =
     \<lparr>Changed = (\<lambda>f. f = e2eRegistryConfigFlag \<or> f = e2eFocusFlag),
      GetString = (\<lambda>f. if f = e2eRegistryConfigFlag then Inr ''repos.yaml''
                         else if f = e2eFocusFlag then Inr ''Pods''
                         else Inl (''flag accessed but not defined: '' @ f))\<rparr>"

definition default_cfg :: E2EConfig where
  "default_cfg = \<lparr>Focus = ''Conformance'', Skip = [], Parallel = ''false'', CustomRegistries = []\<rparr>"

text \<open>
  The conformance image as the override file \<^verbatim>\<open>repos.yaml\<close> moves it, and the flags of a push
  with that file as the user \<^verbatim>\<open>admin\<close>.
\<close>

definition private_conformance :: Config where
  "private_conformance = conformance_img\<lparr>registryHost := ''myregistry.local''\<rparr>"

definition flags_push :: imagesFlags where
  "flags_push = flags_override\<lparr>username := ''admin'', password := ''hunter2''\<rparr>"



text \<open>
  \<open>password_ok\<close>: the password step of \<^verbatim>\<open>pushImages\<close> goes through, that is, no user name is
  given, or the password variable is a string and, when it is empty, the prompt succeeds.
\<close>

definition password_ok :: "env \<Rightarrow> imagesFlags \<Rightarrow> bool" where
  "password_ok E fl =
     (username fl = [] \<or>
      (case viper_password E of
         None \<Rightarrow> False
       | Some envPassword \<Rightarrow>
           envPassword \<noteq> [] \<or> (case ReadPassword E of Inl err \<Rightarrow> False | Inr b \<Rightarrow> True)))"


section \<open>Properties of SaveToTar\<close>

lemma fold_fun_upd: "(\<lambda>a. if a = x then v else f a) = f(x := v)"
  by (rule ext) simp

subsection \<open>The copy loop\<close>

text \<open>
  A copy whose chunk \<open>p\<close> does not fit into the free space writes what fits, stops with
  the write error and leaves the events after \<open>p\<close> unread.
\<close>

lemma io_Copy_write_fails:
  "body w = map Chunk cs @ Chunk p # rest \<Longrightarrow> files w dst = Some old \<Longrightarrow>
   length (concat cs) \<le> quota w \<Longrightarrow> quota w < length (concat cs) + length p \<Longrightarrow>
   io_Copy dst w = (Some ''no space left on device'',
      w\<lparr>files := (files w)(dst \<mapsto> old @ concat cs @ take (quota w - length (concat cs)) p),
        quota := 0, body := rest, reads := reads w @ map Chunk cs @ [Chunk p]\<rparr>)"
proof (induction cs arbitrary: w old)
  case Nil
  then have "p \<noteq> []" by auto
  with Nil show ?case
    by (subst io_Copy.simps) (simp add: Read_def Write_def Let_def min_def)
next
  case (Cons c cs)
  show ?case
  proof (cases "c = []")
    case True
    let ?w1 = "w\<lparr>body := map Chunk cs @ Chunk p # rest, reads := reads w @ [Chunk c]\<rparr>"
    have "io_Copy dst w = io_Copy dst ?w1"
      using Cons.prems True by (subst io_Copy.simps) (simp add: Read_def)
    also have "\<dots> = (Some ''no space left on device'',
      ?w1\<lparr>files := (files ?w1)(dst \<mapsto> old @ concat cs @ take (quota ?w1 - length (concat cs)) p),
        quota := 0, body := rest, reads := reads ?w1 @ map Chunk cs @ [Chunk p]\<rparr>)"
      using Cons.prems True by (intro Cons.IH) simp_all
    finally show ?thesis using True by (simp add: fold_fun_upd)
  next
    case False
    let ?w1 = "w\<lparr>body := map Chunk cs @ Chunk p # rest, reads := reads w @ [Chunk c],
                 files := (files w)(dst \<mapsto> old @ c), quota := quota w - length c\<rparr>"
    have "io_Copy dst w = io_Copy dst ?w1"
      using Cons.prems False
      by (subst io_Copy.simps) (simp add: Read_def Write_def Let_def min_def)
    also have "\<dots> = (Some ''no space left on device'',
      ?w1\<lparr>files := (files ?w1)(dst \<mapsto> (old @ c) @ concat cs @ take (quota ?w1 - length (concat cs)) p),
        quota := 0, body := rest, reads := reads ?w1 @ map Chunk cs @ [Chunk p]\<rparr>)"
      using Cons.prems False by (intro Cons.IH) simp_all
    finally show ?thesis by (simp add: fold_fun_upd)
  qed
qed

text \<open>
  A copy whose chunks all fit runs up to the first final event \<open>ev\<close>: it succeeds at
  end-of-stream and fails with the read error otherwise.
\<close>

lemma io_Copy_to_final:
  "body w = map Chunk cs @ ev # late \<Longrightarrow> is_final ev \<Longrightarrow> files w dst = Some old \<Longrightarrow>
   length (concat cs) \<le> quota w \<Longrightarrow>
   io_Copy dst w = (err_of ev,
      w\<lparr>files := (files w)(dst \<mapsto> old @ concat cs),
        quota := quota w - length (concat cs), body := late,
        reads := reads w @ map Chunk cs @ [ev]\<rparr>)"
proof (induction cs arbitrary: w old)
  case Nil
  then have "(files w)(dst \<mapsto> old) = files w" by (simp add: fun_upd_idem)
  with Nil show ?case
    by (subst io_Copy.simps, cases ev) (simp_all add: Read_def)
next
  case (Cons c cs)
  show ?case
  proof (cases "c = []")
    case True
    let ?w1 = "w\<lparr>body := map Chunk cs @ ev # late, reads := reads w @ [Chunk c]\<rparr>"
    have "io_Copy dst w = io_Copy dst ?w1"
      using Cons.prems True by (subst io_Copy.simps) (simp add: Read_def)
    also have "\<dots> = (err_of ev,
      ?w1\<lparr>files := (files ?w1)(dst \<mapsto> old @ concat cs),
        quota := quota ?w1 - length (concat cs), body := late,
        reads := reads ?w1 @ map Chunk cs @ [ev]\<rparr>)"
      using Cons.prems True by (intro Cons.IH) simp_all
    finally show ?thesis using True by (simp add: fold_fun_upd)
  next
    case False
    let ?w1 = "w\<lparr>body := map Chunk cs @ ev # late, reads := reads w @ [Chunk c],
                 files := (files w)(dst \<mapsto> old @ c), quota := quota w - length c\<rparr>"
    have "io_Copy dst w = io_Copy dst ?w1"
      using Cons.prems False
      by (subst io_Copy.simps) (simp add: Read_def Write_def Let_def min_def)
    also have "\<dots> = (err_of ev,
      ?w1\<lparr>files := (files ?w1)(dst \<mapsto> (old @ c) @ concat cs),
        quota := quota ?w1 - length (concat cs), body := late,
        reads := reads ?w1 @ map Chunk cs @ [ev]\<rparr>)"
      using Cons.prems False by (intro Cons.IH) simp_all
    finally show ?thesis by (simp add: fold_fun_upd)
  qed
qed

subsection \<open>ReadAll\<close>

lemma ReadAll_Nil:
  "body w = [] \<Longrightarrow> ReadAll w = (None, w\<lparr>reads := reads w @ [End_of_stream]\<rparr>)"
  by (subst ReadAll.simps) (simp add: Read_def)

lemma ReadAll_Chunk:
  "body w = Chunk p # es \<Longrightarrow>
   ReadAll w = ReadAll (w\<lparr>body := es, reads := reads w @ [Chunk p]\<rparr>)"
  by (subst ReadAll.simps) (simp add: Read_def)

lemma ReadAll_End:
  "body w = End_of_stream # es \<Longrightarrow>
   ReadAll w = (None, w\<lparr>body := es, reads := reads w @ [End_of_stream]\<rparr>)"
  by (subst ReadAll.simps) (simp add: Read_def)

lemma ReadAll_Error:
  "body w = Read_error er # es \<Longrightarrow>
   ReadAll w = (Some er, w\<lparr>body := es, reads := reads w @ [Read_error er]\<rparr>)"
  by (subst ReadAll.simps) (simp add: Read_def)

lemmas ReadAll_steps = ReadAll_Nil ReadAll_Chunk ReadAll_End ReadAll_Error

lemma ReadAll_fst: "fst (ReadAll w) = late_error (body w)"
proof (induction "body w" arbitrary: w)
  case Nil
  then show ?case by (simp add: ReadAll_Nil)
next
  case (Cons e es)
  from Cons(2)[symmetric] show ?case
    by (cases e) (simp_all add: ReadAll_steps Cons(1))
qed

lemma ReadAll_reached_end: "reached_end (snd (ReadAll w))"
proof (induction "body w" arbitrary: w)
  case Nil
  then show ?case by (simp add: ReadAll_Nil reached_end_def)
next
  case (Cons e es)
  from Cons(2)[symmetric] show ?case
    by (cases e) (simp_all add: ReadAll_steps Cons(1), simp_all add: reached_end_def)
qed

lemma ReadAll_keeps:
  "files (snd (ReadAll w)) = files w \<and> quota (snd (ReadAll w)) = quota w \<and>
   calls (snd (ReadAll w)) = calls w \<and> errlog (snd (ReadAll w)) = errlog w \<and>
   stdout (snd (ReadAll w)) = stdout w"
proof (induction "body w" arbitrary: w)
  case Nil
  then show ?case by (simp add: ReadAll_Nil)
next
  case (Cons e es)
  from Cons(2)[symmetric] show ?case
    by (cases e) (simp_all add: ReadAll_steps Cons(1))
qed

subsection \<open>Creation of the destination file\<close>

text \<open>
  C10. \<^verbatim>\<open>SaveToTar\<close> creates the destination file, truncating the one that is there, before
  it asks the engine for the export. When the export request fails, \<^verbatim>\<open>SaveToTar\<close> returns
  the error "error saving images to tar", and the file is on disk, empty, whatever it held
  before. When the file cannot be created, the error is returned with the world unchanged:
  no request has been sent to the engine.
\<close>

theorem SaveToTar_creates_file_before_export:
  "(create_err E filepath = None \<and> image_save E images = Inl err \<longrightarrow>
      SaveToTar E images filepath w =
        (Some (Wrap err ''error saving images to tar''),
         w\<lparr>files := (files w)(filepath \<mapsto> []), calls := calls w @ [CallSave images]\<rparr>))
   \<and> (create_err E filepath = Some err \<longrightarrow>
      SaveToTar E images filepath w = (Some (Wrap err (create_failed filepath)), w))"
  by (simp add: SaveToTar_def os_Create_def ImageSave_def create_failed_def)

theorem SaveToTar_creates_file_before_export_witness:
  "create_err env_save_refused ''out.tar'' = None
   \<and> image_save env_save_refused [''img''] = Inl ''daemon unreachable''
   \<and> files world_old_tar ''out.tar'' = Some ''old archive''
   \<and> fst (SaveToTar env_save_refused [''img''] ''out.tar'' world_old_tar) =
       Some ''error saving images to tar: daemon unreachable''
   \<and> files (snd (SaveToTar env_save_refused [''img''] ''out.tar'' world_old_tar)) ''out.tar''
       = Some []
   \<and> calls (snd (SaveToTar env_save_refused [''img''] ''out.tar'' world_old_tar))
       = [CallSave [''img'']]
   \<and> create_err env_readonly ''out.tar'' = Some ''permission denied''
   \<and> snd (SaveToTar env_readonly [''img''] ''out.tar'' world_old_tar) = world_old_tar"
  using SaveToTar_creates_file_before_export
          [of env_save_refused "''out.tar''" "[''img'']" "''daemon unreachable''" world_old_tar]
        SaveToTar_creates_file_before_export
          [of env_readonly "''out.tar''" "[''img'']" "''permission denied''" world_old_tar]
  by (simp add: env_save_refused_def env_readonly_def env_ok_def world_old_tar_def
      world_init_def Wrap_def)

subsection \<open>A failed copy and the rest of the export stream\<close>

text \<open>
  C1 as stated: when the copy to the destination file fails partway, \<^verbatim>\<open>SaveToTar\<close> still
  reads the export stream to its end before it returns, and surfaces a late error of the
  engine. It does not: with four bytes free, the first chunk of six bytes cannot be
  written, \<^verbatim>\<open>SaveToTar\<close> returns the copy error, and the second chunk, the end-of-stream
  marker and the late error of the engine are still unread.
\<close>

theorem SaveToTar_copy_failure_leaves_stream_unread:
  "fst (SaveToTar env_ok [''img''] ''out.tar'' (world_init 4)) =
     Some (''Could not copy the file '' @ squote @ ''out.tar'' @ squote @
           '' data to the tarball: no space left on device'')
   \<and> files (snd (SaveToTar env_ok [''img''] ''out.tar'' (world_init 4))) ''out.tar''
       = Some ''abcd''
   \<and> reads (snd (SaveToTar env_ok [''img''] ''out.tar'' (world_init 4))) = [Chunk ''abcdef'']
   \<and> body (snd (SaveToTar env_ok [''img''] ''out.tar'' (world_init 4))) =
       [Chunk ''ghi'', End_of_stream, Read_error ''layer missing'']
   \<and> \<not> reached_end (snd (SaveToTar env_ok [''img''] ''out.tar'' (world_init 4)))"
  by (simp add: SaveToTar_def os_Create_def ImageSave_def open_body_def env_ok_def
      world_init_def io_Copy.simps Read_def Write_def Wrap_def reached_end_def)

text \<open>
  C1, amended. Once the destination file is created and the export is open:
  \<^item> a copy that fails on a write (the chunk \<open>p\<close> does not fit) makes \<^verbatim>\<open>SaveToTar\<close> return
    the copy error at once; the events after \<open>p\<close> stay unread (\<open>body\<close> is \<open>rest\<close>);
  \<^item> a copy that fails on a read error of the stream returns that error as a copy error,
    and what follows it stays unread;
  \<^item> a copy that succeeds has read the stream up to its end-of-stream marker;
    \<^verbatim>\<open>SaveToTar\<close> then reads on to the next final event, and an error met there is returned
    as "error exporting images", which is not a copy error. The file holds the data.
\<close>

theorem SaveToTar_copy_then_drain:
  assumes "create_err E filepath = None"
  shows "(image_save E images = Inr (map Chunk cs @ Chunk p # rest) \<and>
          length (concat cs) \<le> quota w \<and> quota w < length (concat cs) + length p \<longrightarrow>
          SaveToTar E images filepath w =
            (Some (Wrap ''no space left on device'' (copy_failed filepath)),
             w\<lparr>files := (files w)(filepath \<mapsto>
                  concat cs @ take (quota w - length (concat cs)) p),
               quota := 0, body := rest, reads := map Chunk cs @ [Chunk p],
               calls := calls w @ [CallSave images]\<rparr>))
       \<and> (image_save E images = Inr (map Chunk cs @ Read_error er # rest) \<and>
          length (concat cs) \<le> quota w \<longrightarrow>
          SaveToTar E images filepath w =
            (Some (Wrap er (copy_failed filepath)),
             w\<lparr>files := (files w)(filepath \<mapsto> concat cs),
               quota := quota w - length (concat cs), body := rest,
               reads := map Chunk cs @ [Read_error er],
               calls := calls w @ [CallSave images]\<rparr>))
       \<and> (image_save E images = Inr (map Chunk cs @ End_of_stream # late) \<and>
          length (concat cs) \<le> quota w \<longrightarrow>
          fst (SaveToTar E images filepath w) =
            map_option (\<lambda>err. Wrap err ''error exporting images'') (late_error late) \<and>
          reached_end (snd (SaveToTar E images filepath w)) \<and>
          files (snd (SaveToTar E images filepath w)) filepath = Some (concat cs))"
proof (intro conjI impI)
  let ?w1 = "w\<lparr>files := (files w)(filepath \<mapsto> []), calls := calls w @ [CallSave images]\<rparr>"
  {
    assume a: "image_save E images = Inr (map Chunk cs @ Chunk p # rest) \<and>
          length (concat cs) \<le> quota w \<and> quota w < length (concat cs) + length p"
    let ?w2 = "open_body (map Chunk cs @ Chunk p # rest) ?w1"
    have "io_Copy filepath ?w2 = (Some ''no space left on device'',
      ?w2\<lparr>files := (files ?w2)(filepath \<mapsto>
             [] @ concat cs @ take (quota ?w2 - length (concat cs)) p),
        quota := 0, body := rest, reads := reads ?w2 @ map Chunk cs @ [Chunk p]\<rparr>)"
      using a by (intro io_Copy_write_fails) (simp_all add: open_body_def)
    then show "SaveToTar E images filepath w =
            (Some (Wrap ''no space left on device'' (copy_failed filepath)),
             w\<lparr>files := (files w)(filepath \<mapsto>
                  concat cs @ take (quota w - length (concat cs)) p),
               quota := 0, body := rest, reads := map Chunk cs @ [Chunk p],
               calls := calls w @ [CallSave images]\<rparr>)"
      using a assms
      by (simp add: SaveToTar_def os_Create_def ImageSave_def copy_failed_def open_body_def
          fold_fun_upd)
  }
  {
    assume a: "image_save E images = Inr (map Chunk cs @ Read_error er # rest) \<and>
          length (concat cs) \<le> quota w"
    let ?w2 = "open_body (map Chunk cs @ Read_error er # rest) ?w1"
    have "io_Copy filepath ?w2 = (err_of (Read_error er),
      ?w2\<lparr>files := (files ?w2)(filepath \<mapsto> [] @ concat cs),
        quota := quota ?w2 - length (concat cs), body := rest,
        reads := reads ?w2 @ map Chunk cs @ [Read_error er]\<rparr>)"
      using a by (intro io_Copy_to_final) (simp_all add: open_body_def)
    then show "SaveToTar E images filepath w =
            (Some (Wrap er (copy_failed filepath)),
             w\<lparr>files := (files w)(filepath \<mapsto> concat cs),
               quota := quota w - length (concat cs), body := rest,
               reads := map Chunk cs @ [Read_error er],
               calls := calls w @ [CallSave images]\<rparr>)"
      using a assms
      by (simp add: SaveToTar_def os_Create_def ImageSave_def copy_failed_def open_body_def
          fold_fun_upd)
  }
  {
    assume a: "image_save E images = Inr (map Chunk cs @ End_of_stream # late) \<and>
          length (concat cs) \<le> quota w"
    let ?w2 = "open_body (map Chunk cs @ End_of_stream # late) ?w1"
    let ?w3 = "?w2\<lparr>files := (files ?w2)(filepath \<mapsto> [] @ concat cs),
        quota := quota ?w2 - length (concat cs), body := late,
        reads := reads ?w2 @ map Chunk cs @ [End_of_stream]\<rparr>"
    have c: "io_Copy filepath ?w2 = (err_of End_of_stream, ?w3)"
      using a by (intro io_Copy_to_final) (simp_all add: open_body_def)
    have s: "SaveToTar E images filepath w =
       (map_option (\<lambda>err. Wrap err ''error exporting images'') (fst (ReadAll ?w3)),
        snd (ReadAll ?w3))"
      using a assms c
      by (cases "ReadAll ?w3")
         (auto simp add: SaveToTar_def os_Create_def ImageSave_def split: option.splits)
    show "fst (SaveToTar E images filepath w) =
            map_option (\<lambda>err. Wrap err ''error exporting images'') (late_error late)"
      by (simp add: s ReadAll_fst)
    show "reached_end (snd (SaveToTar E images filepath w))"
      by (simp only: s snd_conv ReadAll_reached_end)
    show "files (snd (SaveToTar E images filepath w)) filepath = Some (concat cs)"
      by (simp add: s ReadAll_keeps open_body_def)
  }
qed

theorem SaveToTar_copy_then_drain_witness:
  "create_err env_ok ''out.tar'' = None
   \<and> image_save env_ok [''img''] =
       Inr (map Chunk [] @ Chunk ''abcdef'' # [Chunk ''ghi'', End_of_stream,
            Read_error ''layer missing''])
   \<and> body (snd (SaveToTar env_ok [''img''] ''out.tar'' (world_init 4))) =
       [Chunk ''ghi'', End_of_stream, Read_error ''layer missing'']
   \<and> create_err env_broken_stream ''out.tar'' = None
   \<and> image_save env_broken_stream [''img''] =
       Inr (map Chunk [''ab''] @ Read_error ''connection reset'' # [])
   \<and> fst (SaveToTar env_broken_stream [''img''] ''out.tar'' (world_init 4)) =
       Some (copy_failed ''out.tar'' @ '': connection reset'')
   \<and> image_save env_ok [''img''] =
       Inr (map Chunk [''abcdef'', ''ghi''] @ End_of_stream # [Read_error ''layer missing''])
   \<and> fst (SaveToTar env_ok [''img''] ''out.tar'' (world_init 100)) =
       Some ''error exporting images: layer missing''
   \<and> reached_end (snd (SaveToTar env_ok [''img''] ''out.tar'' (world_init 100)))
   \<and> files (snd (SaveToTar env_ok [''img''] ''out.tar'' (world_init 100))) ''out.tar''
       = Some ''abcdefghi''"
proof -
  have c: "create_err env_ok ''out.tar'' = None" "create_err env_broken_stream ''out.tar'' = None"
    by (simp_all add: env_ok_def env_broken_stream_def)
  have s1: "image_save env_ok [''img''] =
       Inr (map Chunk [] @ Chunk ''abcdef'' # [Chunk ''ghi'', End_of_stream,
            Read_error ''layer missing''])"
    by (simp add: env_ok_def)
  have s2: "image_save env_broken_stream [''img''] =
       Inr (map Chunk [''ab''] @ Read_error ''connection reset'' # [])"
    by (simp add: env_ok_def env_broken_stream_def)
  have s3: "image_save env_ok [''img''] =
       Inr (map Chunk [''abcdef'', ''ghi''] @ End_of_stream # [Read_error ''layer missing''])"
    by (simp add: env_ok_def)
  note t1 = SaveToTar_copy_then_drain [OF c(1), where images = "[''img'']" and cs = "[]"
      and p = "''abcdef''" and rest = "[Chunk ''ghi'', End_of_stream, Read_error ''layer missing'']"
      and w = "world_init 4"]
  note t2 = SaveToTar_copy_then_drain [OF c(2), where images = "[''img'']" and cs = "[''ab'']"
      and er = "''connection reset''" and rest = "[]" and w = "world_init 4"]
  note t3 = SaveToTar_copy_then_drain [OF c(1), where images = "[''img'']"
      and cs = "[''abcdef'', ''ghi'']" and late = "[Read_error ''layer missing'']"
      and w = "world_init 100"]
  have q: "quota (world_init 4) = 4" "quota (world_init 100) = 100"
    by (simp_all add: world_init_def)
  from t1 s1 q have r1: "body (snd (SaveToTar env_ok [''img''] ''out.tar'' (world_init 4))) =
       [Chunk ''ghi'', End_of_stream, Read_error ''layer missing'']"
    by simp
  from t2 s2 q have r2: "fst (SaveToTar env_broken_stream [''img''] ''out.tar'' (world_init 4)) =
       Some (copy_failed ''out.tar'' @ '': connection reset'')"
    by (simp add: Wrap_def)
  from t3 s3 q have r3: "fst (SaveToTar env_ok [''img''] ''out.tar'' (world_init 100)) =
       Some ''error exporting images: layer missing''
   \<and> reached_end (snd (SaveToTar env_ok [''img''] ''out.tar'' (world_init 100)))
   \<and> files (snd (SaveToTar env_ok [''img''] ''out.tar'' (world_init 100))) ''out.tar''
       = Some ''abcdefghi''"
    by (simp add: Wrap_def)
  from c s1 s2 s3 r1 r2 r3 show ?thesis by blast
qed

section \<open>Properties of the batches\<close>

subsection \<open>Streams of engine messages\<close>

lemma sDM_Nil:
  "body w = [] \<Longrightarrow>
   streamDockerMessages E w = (None, w\<lparr>reads := reads w @ [End_of_stream]\<rparr>)"
  by (subst streamDockerMessages.simps) (simp add: Read_def)

lemma sDM_Chunk:
  "body w = Chunk p # es \<Longrightarrow>
   streamDockerMessages E w =
     (case jm_error E p of
        Some err \<Rightarrow> (Some err, w\<lparr>body := es, reads := reads w @ [Chunk p]\<rparr>)
      | None \<Rightarrow> streamDockerMessages E (w\<lparr>body := es, reads := reads w @ [Chunk p]\<rparr>))"
  by (subst streamDockerMessages.simps) (simp add: Read_def)

lemma sDM_End:
  "body w = End_of_stream # es \<Longrightarrow>
   streamDockerMessages E w = (None, w\<lparr>body := es, reads := reads w @ [End_of_stream]\<rparr>)"
  by (subst streamDockerMessages.simps) (simp add: Read_def)

lemma sDM_Error:
  "body w = Read_error er # es \<Longrightarrow>
   streamDockerMessages E w =
     (Some er, w\<lparr>body := es, reads := reads w @ [Read_error er]\<rparr>)"
  by (subst streamDockerMessages.simps) (simp add: Read_def)

lemmas sDM_steps = sDM_Nil sDM_Chunk sDM_End sDM_Error

lemma sDM_keeps:
  "files (snd (streamDockerMessages E w)) = files w \<and>
   quota (snd (streamDockerMessages E w)) = quota w \<and>
   calls (snd (streamDockerMessages E w)) = calls w \<and>
   errlog (snd (streamDockerMessages E w)) = errlog w \<and>
   stdout (snd (streamDockerMessages E w)) = stdout w"
proof (induction "body w" arbitrary: w)
  case Nil
  then show ?case by (simp add: sDM_Nil)
next
  case (Cons e es)
  from Cons(2)[symmetric] show ?case
    by (cases e) (simp_all add: sDM_steps Cons(1) split: option.split)
qed

lemma sDM_body_only:
  "body w = body w' \<Longrightarrow>
   fst (streamDockerMessages E w) = fst (streamDockerMessages E w') \<and>
   body (snd (streamDockerMessages E w)) = body (snd (streamDockerMessages E w'))"
proof (induction "body w" arbitrary: w w')
  case Nil
  then show ?case by (simp add: sDM_Nil)
next
  case (Cons e es)
  from Cons(2)[symmetric] Cons(3) have b: "body w = e # es" "body w' = e # es" by simp_all
  show ?case
  proof (cases e)
    case (Chunk p)
    show ?thesis
    proof (cases "jm_error E p")
      case None
      with b Chunk show ?thesis
        using Cons(1)[of "w\<lparr>body := es, reads := reads w @ [Chunk p]\<rparr>"
                        "w'\<lparr>body := es, reads := reads w' @ [Chunk p]\<rparr>"]
        by (simp add: sDM_Chunk)
    next
      case (Some err)
      with b Chunk show ?thesis by (simp add: sDM_Chunk)
    qed
  next
    case End_of_stream
    with b show ?thesis by (simp add: sDM_End)
  next
    case (Read_error er)
    with b show ?thesis by (simp add: sDM_Error)
  qed
qed


lemma PullImage_keeps:
  "calls (snd (PullImage E img w)) = calls w @ [CallPull (GetE2EImage img)] \<and>
   errlog (snd (PullImage E img w)) = errlog w \<and>
   stdout (snd (PullImage E img w)) = stdout w \<and>
   files (snd (PullImage E img w)) = files w \<and>
   quota (snd (PullImage E img w)) = quota w"
proof (cases "image_pull E (GetE2EImage img)")
  case (Inl err)
  then show ?thesis by (simp add: PullImage_def ImagePull_def)
next
  case (Inr script)
  let ?w1 = "open_body script (w\<lparr>calls := calls w @ [CallPull (GetE2EImage img)]\<rparr>)"
  obtain e2 w2 where s2: "streamDockerMessages E ?w1 = (e2, w2)" by (cases "streamDockerMessages E ?w1")
  obtain e3 w3 where s3: "ReadAll w2 = (e3, w3)" by (cases "ReadAll w2")
  from sDM_keeps[of E ?w1] s2 have k2: "files w2 = files w" "quota w2 = quota w"
    "calls w2 = calls w @ [CallPull (GetE2EImage img)]" "errlog w2 = errlog w" "stdout w2 = stdout w"
    by (simp_all add: open_body_def)
  from ReadAll_keeps[of w2] s3 k2 have k3: "files w3 = files w" "quota w3 = quota w"
    "calls w3 = calls w @ [CallPull (GetE2EImage img)]" "errlog w3 = errlog w" "stdout w3 = stdout w"
    by simp_all
  from Inr s2 s3 k2 k3 show ?thesis
    by (cases e2; cases e3) (simp_all add: PullImage_def ImagePull_def Close_def)
qed

lemma PullImage_fst: "fst (PullImage E img w) = pull_result E img"
proof (cases "image_pull E (GetE2EImage img)")
  case (Inl err)
  then show ?thesis by (simp add: pull_result_def PullImage_def ImagePull_def)
next
  case (Inr script)
  let ?c = "CallPull (GetE2EImage img)"
  let ?w1 = "open_body script (w\<lparr>calls := calls w @ [?c]\<rparr>)"
  let ?v1 = "open_body script ((world_init 0)\<lparr>calls := calls (world_init 0) @ [?c]\<rparr>)"
  obtain e2 w2 where s2: "streamDockerMessages E ?w1 = (e2, w2)" by (cases "streamDockerMessages E ?w1")
  obtain d2 v2 where t2: "streamDockerMessages E ?v1 = (d2, v2)" by (cases "streamDockerMessages E ?v1")
  have "body ?w1 = body ?v1" by (simp add: open_body_def)
  from sDM_body_only[OF this, of E] s2 t2 have eq: "e2 = d2" "body w2 = body v2" by simp_all
  have "fst (ReadAll w2) = fst (ReadAll v2)" by (simp add: ReadAll_fst eq)
  with Inr s2 t2 eq show ?thesis
    by (cases "ReadAll w2"; cases "ReadAll v2"; cases d2)
       (auto simp add: pull_result_def PullImage_def ImagePull_def split: option.splits)
qed


lemma pull_loop_calls:
  "calls (pull_loop E kvs w) = calls w @ map (\<lambda>(k, v). CallPull (GetE2EImage v)) kvs"
proof (induction kvs arbitrary: w)
  case Nil
  show ?case by simp
next
  case (Cons kv kvs)
  obtain k v where kv: "kv = (k, v)" by (cases kv)
  obtain e w1 where p: "PullImage E v w = (e, w1)" by (cases "PullImage E v w")
  from PullImage_keeps[of E v w] p
  have "calls w1 = calls w @ [CallPull (GetE2EImage v)]" by simp
  with kv p show ?case
    by (cases e) (simp_all add: Cons.IH Println_def Print_def LogError_def)
qed

lemma pull_loop_errlog:
  "errlog (pull_loop E kvs w) = errlog w @ concat (map (\<lambda>(k, v). pull_log E v) kvs)"
proof (induction kvs arbitrary: w)
  case Nil
  show ?case by simp
next
  case (Cons kv kvs)
  obtain k v where kv: "kv = (k, v)" by (cases kv)
  obtain e w1 where p: "PullImage E v w = (e, w1)" by (cases "PullImage E v w")
  from PullImage_keeps[of E v w] p have k1: "errlog w1 = errlog w" by simp
  from PullImage_fst[of E v w] p have r: "pull_result E v = e" by simp
  from kv p k1 r show ?case
    by (cases e) (simp_all add: Cons.IH Println_def Print_def LogError_def pull_log_def)
qed

lemma pull_loop_stdout:
  "stdout (pull_loop E kvs w) = stdout w @ replicate (length kvs) separator"
proof (induction kvs arbitrary: w)
  case Nil
  show ?case by simp
next
  case (Cons kv kvs)
  obtain k v where kv: "kv = (k, v)" by (cases kv)
  obtain e w1 where p: "PullImage E v w = (e, w1)" by (cases "PullImage E v w")
  from PullImage_keeps[of E v w] p have k1: "stdout w1 = stdout w" by simp
  from kv p k1 show ?case
    by (cases e)
       (simp_all add: Cons.IH Println_def Print_def LogError_def separator_def
          replicate_append_same)
qed

subsection \<open>Tagging and pushing\<close>

lemma TagImage_result:
  "TagImage E src target w =
     (map_option (\<lambda>err. Wrap err (''error tagging image: '' @ GetE2EImage target))
        (image_tag E (GetE2EImage src) (GetE2EImage target)),
      w\<lparr>stdout := stdout w @ [''Tagging image: '' @ GetE2EImage src @ '' to '' @
             GetE2EImage target @ newline],
        calls := calls w @ [CallTag (GetE2EImage src) (GetE2EImage target)]\<rparr>)"
  by (cases "image_tag E (GetE2EImage src) (GetE2EImage target)")
     (simp_all add: TagImage_def ImageTag_def Print_def)

lemma PushImage_keeps:
  "calls (snd (PushImage E img auth w)) =
     calls w @ (case json_Marshal E auth of
                  Inl err \<Rightarrow> []
                | Inr authBytes \<Rightarrow> [CallPush (GetE2EImage img) (EncodeToString authBytes)]) \<and>
   errlog (snd (PushImage E img auth w)) = errlog w \<and>
   stdout (snd (PushImage E img auth w)) = stdout w \<and>
   files (snd (PushImage E img auth w)) = files w \<and>
   quota (snd (PushImage E img auth w)) = quota w"
proof (cases "json_Marshal E auth")
  case (Inl err)
  then show ?thesis by (simp add: PushImage_def)
next
  case (Inr authBytes)
  let ?c = "CallPush (GetE2EImage img) (EncodeToString authBytes)"
  show ?thesis
  proof (cases "image_push E (GetE2EImage img) (EncodeToString authBytes)")
    case (Inl err)
    with Inr show ?thesis by (simp add: PushImage_def ImagePush_def)
  next
    case script: (Inr script)
    let ?w1 = "open_body script (w\<lparr>calls := calls w @ [?c]\<rparr>)"
    obtain e2 w2 where s2: "streamDockerMessages E ?w1 = (e2, w2)"
      by (cases "streamDockerMessages E ?w1")
    obtain e3 w3 where s3: "ReadAll w2 = (e3, w3)" by (cases "ReadAll w2")
    from sDM_keeps[of E ?w1] s2 have k2: "files w2 = files w" "quota w2 = quota w"
      "calls w2 = calls w @ [?c]" "errlog w2 = errlog w" "stdout w2 = stdout w"
      by (simp_all add: open_body_def)
    from ReadAll_keeps[of w2] s3 k2 have k3: "files w3 = files w" "quota w3 = quota w"
      "calls w3 = calls w @ [?c]" "errlog w3 = errlog w" "stdout w3 = stdout w"
      by simp_all
    from Inr script s2 s3 k2 k3 show ?thesis
      by (cases e2; cases e3) (simp_all add: PushImage_def ImagePush_def Close_def)
  qed
qed

lemma PushImage_fst: "fst (PushImage E img auth w) = push_result E img auth"
proof (cases "json_Marshal E auth")
  case (Inl err)
  then show ?thesis by (simp add: push_result_def PushImage_def)
next
  case (Inr authBytes)
  let ?c = "CallPush (GetE2EImage img) (EncodeToString authBytes)"
  show ?thesis
  proof (cases "image_push E (GetE2EImage img) (EncodeToString authBytes)")
    case (Inl err)
    with Inr show ?thesis by (simp add: push_result_def PushImage_def ImagePush_def)
  next
    case script: (Inr script)
    let ?w1 = "open_body script (w\<lparr>calls := calls w @ [?c]\<rparr>)"
    let ?v1 = "open_body script ((world_init 0)\<lparr>calls := calls (world_init 0) @ [?c]\<rparr>)"
    obtain e2 w2 where s2: "streamDockerMessages E ?w1 = (e2, w2)"
      by (cases "streamDockerMessages E ?w1")
    obtain d2 v2 where t2: "streamDockerMessages E ?v1 = (d2, v2)"
      by (cases "streamDockerMessages E ?v1")
    have "body ?w1 = body ?v1" by (simp add: open_body_def)
    from sDM_body_only[OF this, of E] s2 t2 have eq: "e2 = d2" "body w2 = body v2" by simp_all
    have "fst (ReadAll w2) = fst (ReadAll v2)" by (simp add: ReadAll_fst eq)
    with Inr script s2 t2 eq show ?thesis
      by (cases "ReadAll w2"; cases "ReadAll v2"; cases d2)
         (auto simp add: push_result_def PushImage_def ImagePush_def split: option.splits)
  qed
qed

lemma push_loop_step:
  "push_loop E auth priv ((k, v) # rest) w =
     push_loop E auth priv rest
       ((snd (PushImage E (index_map priv k) auth
           ((snd (TagImage E v (index_map priv k) w))
              \<lparr>errlog := errlog w @ tag_log E v (index_map priv k)\<rparr>)))
        \<lparr>errlog := errlog w @ tag_log E v (index_map priv k) @
                     push_log E auth v (index_map priv k),
          stdout := stdout w @ [''Tagging image: '' @ GetE2EImage v @ '' to '' @
             GetE2EImage (index_map priv k) @ newline, separator]\<rparr>)"
proof -
  let ?d = "index_map priv k"
  let ?w2 = "(snd (TagImage E v ?d w))\<lparr>errlog := errlog w @ tag_log E v ?d\<rparr>"
  have w2: "(case fst (TagImage E v ?d w) of
               Some err \<Rightarrow> LogError (Wrap err (''couldn't tag image: '' @ GetE2EImage v))
                             (snd (TagImage E v ?d w))
             | None \<Rightarrow> snd (TagImage E v ?d w)) = ?w2"
    by (cases "image_tag E (GetE2EImage v) (GetE2EImage ?d)")
       (simp_all add: TagImage_result tag_log_def LogError_def)
  obtain e3 w3 where p: "PushImage E ?d auth ?w2 = (e3, w3)" by (cases "PushImage E ?d auth ?w2")
  from PushImage_keeps[of E ?d auth ?w2] p
  have k3: "errlog w3 = errlog w @ tag_log E v ?d"
    "stdout w3 = stdout w @ [''Tagging image: '' @ GetE2EImage v @ '' to '' @
             GetE2EImage ?d @ newline]"
    by (simp_all add: TagImage_result)
  from PushImage_fst[of E ?d auth ?w2] p have r: "push_result E ?d auth = e3" by simp
  have w4: "Println ''########'' (case e3 of
               Some err \<Rightarrow> LogError (Wrap err (''couldn't push image: '' @ GetE2EImage v)) w3
             | None \<Rightarrow> w3) =
        w3\<lparr>errlog := errlog w @ tag_log E v ?d @ push_log E auth v ?d,
          stdout := stdout w @ [''Tagging image: '' @ GetE2EImage v @ '' to '' @
             GetE2EImage ?d @ newline, separator]\<rparr>"
    using k3 r
    by (cases e3) (simp_all add: push_log_def LogError_def Println_def Print_def separator_def)
  have "push_loop E auth priv ((k, v) # rest) w =
        push_loop E auth priv rest (Println ''########''
          (case fst (PushImage E ?d auth ?w2) of
             Some err \<Rightarrow> LogError (Wrap err (''couldn't push image: '' @ GetE2EImage v))
                           (snd (PushImage E ?d auth ?w2))
           | None \<Rightarrow> snd (PushImage E ?d auth ?w2)))"
    by (simp only: push_loop.simps Let_def split_beta w2)
  also have "\<dots> = push_loop E auth priv rest
       (w3\<lparr>errlog := errlog w @ tag_log E v ?d @ push_log E auth v ?d,
          stdout := stdout w @ [''Tagging image: '' @ GetE2EImage v @ '' to '' @
             GetE2EImage ?d @ newline, separator]\<rparr>)"
    by (simp only: p fst_conv snd_conv w4)
  finally show ?thesis by (simp only: p snd_conv)
qed


lemma push_loop_calls:
  "calls (push_loop E auth priv kvs w) =
     calls w @ concat (map (\<lambda>(k, v). push_calls E auth v (index_map priv k)) kvs)"
proof (induction kvs arbitrary: w)
  case Nil
  show ?case by simp
next
  case (Cons kv kvs)
  obtain k v where kv: "kv = (k, v)" by (cases kv)
  show ?case
    unfolding kv push_loop_step
    by (cases "json_Marshal E auth")
       (simp_all add: Cons.IH PushImage_keeps TagImage_result push_calls_def)
qed

lemma push_loop_errlog:
  "errlog (push_loop E auth priv kvs w) =
     errlog w @ concat (map (\<lambda>(k, v). tag_log E v (index_map priv k) @
                                   push_log E auth v (index_map priv k)) kvs)"
proof (induction kvs arbitrary: w)
  case Nil
  show ?case by simp
next
  case (Cons kv kvs)
  obtain k v where kv: "kv = (k, v)" by (cases kv)
  show ?case
    unfolding kv push_loop_step by (simp add: Cons.IH)
qed

section \<open>The pull batch\<close>

text \<open>
  C5. In a pull batch over \<open>N\<close> images (the entries \<open>pre\<close>, then \<open>(k, v)\<close>, then \<open>post\<close>) in
  which the pull of \<open>v\<close> fails and every other pull succeeds, all \<open>N\<close> pulls are requested
  from the engine, in the order of the batch; the error log receives one line, the
  failure of \<open>v\<close>; and the separator line is printed \<open>N\<close> times, once per image.
\<close>

theorem pull_loop_one_failure:
  assumes "pull_result E v = Some err"
    and "\<forall>kv \<in> set (pre @ post). pull_result E (snd kv) = None"
  shows "calls (pull_loop E (pre @ (k, v) # post) w) =
           calls w @ map (\<lambda>(k, v). CallPull (GetE2EImage v)) (pre @ (k, v) # post)
       \<and> errlog (pull_loop E (pre @ (k, v) # post) w) =
           errlog w @ [Wrap err (''couldn't pull image: '' @ GetE2EImage v)]
       \<and> stdout (pull_loop E (pre @ (k, v) # post) w) =
           stdout w @ replicate (length pre + 1 + length post) separator"
proof -
  have none: "concat (map (\<lambda>(k, v). pull_log E v) xs) = []"
    if "\<forall>kv \<in> set xs. pull_result E (snd kv) = None" for xs
    using that by (induction xs) (auto simp: pull_log_def)
  have np: "concat (map (\<lambda>(k, v). pull_log E v) pre) = []"
    using assms(2) by (intro none) simp
  have nq: "concat (map (\<lambda>(k, v). pull_log E v) post) = []"
    using assms(2) by (intro none) simp
  have pv: "pull_log E v = [Wrap err (''couldn't pull image: '' @ GetE2EImage v)]"
    using assms(1) by (simp add: pull_log_def)
  have "concat (map (\<lambda>(k, v). pull_log E v) (pre @ (k, v) # post)) =
        [Wrap err (''couldn't pull image: '' @ GetE2EImage v)]"
    by (simp add: np nq pv)
  then show ?thesis
    by (simp add: pull_loop_calls pull_loop_errlog pull_loop_stdout)
qed

lemma pull_result_conformance: "pull_result env_pull_fails conformance_img = None"
  by (simp add: pull_result_def PullImage_def ImagePull_def open_body_def Close_def
      env_pull_fails_def env_ok_def conformance_img_def GetE2EImage_def world_init_def
      sDM_steps ReadAll_steps)

lemma pull_result_busybox:
  "pull_result env_pull_fails busybox_img =
     Some ''error pulling image: docker.io/library/busybox:1.18.0: manifest unknown''"
  by (simp add: pull_result_def PullImage_def ImagePull_def
      env_pull_fails_def env_ok_def busybox_img_def GetE2EImage_def world_init_def Wrap_def)

theorem pull_loop_one_failure_witness:
  "pull_result env_pull_fails busybox_img =
     Some ''error pulling image: docker.io/library/busybox:1.18.0: manifest unknown''
   \<and> pull_result env_pull_fails conformance_img = None
   \<and> calls (pull_loop env_pull_fails
         [(''busybox'', busybox_img), (''conformance'', conformance_img)] (world_init 0)) =
       [CallPull ''docker.io/library/busybox:1.18.0'', CallPull ''k8s.gcr.io/conformance:1.18.0'']
   \<and> errlog (pull_loop env_pull_fails
         [(''busybox'', busybox_img), (''conformance'', conformance_img)] (world_init 0)) =
       [''couldn't pull image: docker.io/library/busybox:1.18.0: error pulling image: docker.io/library/busybox:1.18.0: manifest unknown'']"
proof -
  have h: "\<forall>kv \<in> set ([] @ [(''conformance'', conformance_img)]).
             pull_result env_pull_fails (snd kv) = None"
    by (simp add: pull_result_conformance)
  have g: "GetE2EImage busybox_img = ''docker.io/library/busybox:1.18.0''"
    "GetE2EImage conformance_img = ''k8s.gcr.io/conformance:1.18.0''"
    by (simp_all add: busybox_img_def conformance_img_def GetE2EImage_def)
  have c: "calls (world_init 0) = []" "errlog (world_init 0) = []"
    by (simp_all add: world_init_def)
  from pull_loop_one_failure [OF pull_result_busybox h, of "''busybox''" "world_init 0"]
  show ?thesis
    by (simp add: pull_result_busybox pull_result_conformance g c Wrap_def
        del: pull_loop.simps)
qed

text \<open>
  C4 as stated: two runs of the pull batch over the same resolved image set pull the images
  in the same order. The set is a Go map, and \<^verbatim>\<open>range\<close> over a map delivers its entries in an
  order the runtime chooses anew for each loop. Two runs that resolve the same set and are
  given two such orders send their pull requests in different orders.
\<close>

theorem pull_order_differs_between_runs:
  "GetImages env_rev [] ''1.18.0'' (world_init 0) = GetImages env_ok [] ''1.18.0'' (world_init 0)
   \<and> range_of [(''conformance'', conformance_img), (''busybox'', busybox_img)]
        (go_range env_ok [(''conformance'', conformance_img), (''busybox'', busybox_img)])
   \<and> range_of [(''conformance'', conformance_img), (''busybox'', busybox_img)]
        (go_range env_rev [(''conformance'', conformance_img), (''busybox'', busybox_img)])
   \<and> calls (snd (pullImages env_ok flags_e2e (world_init 0))) =
       [CallPull ''k8s.gcr.io/conformance:1.18.0'', CallPull ''docker.io/library/busybox:1.18.0'']
   \<and> calls (snd (pullImages env_rev flags_e2e (world_init 0))) =
       [CallPull ''docker.io/library/busybox:1.18.0'', CallPull ''k8s.gcr.io/conformance:1.18.0'']
   \<and> calls (snd (pullImages env_ok flags_e2e (world_init 0))) \<noteq>
       calls (snd (pullImages env_rev flags_e2e (world_init 0)))"
  by (simp add: pullImages_def GetImages_def NewRegistryList_def GetImageConfigs_def add_entry_def
      env_ok_def env_rev_def flags_e2e_def pull_loop_calls world_init_def GetE2EImage_def
      range_of_def conformance_img_def busybox_img_def insert_commute
      del: pull_loop.simps)

text \<open>
  C4, amended. The pull batch requests the images one at a time, in exactly the order in
  which \<^verbatim>\<open>range\<close> delivers the entries of the resolved set. That order is not fixed by the
  set: for two orders \<open>kvs1\<close> and \<open>kvs2\<close> of the same set the requests of the two runs are the
  same up to their order.
\<close>

theorem pull_order_is_range_order:
  "range_of m kvs1 \<and> range_of m kvs2 \<longrightarrow>
     calls (pull_loop E kvs1 w) = calls w @ map (\<lambda>(k, v). CallPull (GetE2EImage v)) kvs1
   \<and> calls (pull_loop E kvs2 w) = calls w @ map (\<lambda>(k, v). CallPull (GetE2EImage v)) kvs2
   \<and> mset (calls (pull_loop E kvs1 w)) = mset (calls (pull_loop E kvs2 w))"
proof
  assume a: "range_of m kvs1 \<and> range_of m kvs2"
  then have "distinct kvs1" "distinct kvs2" "set kvs1 = set kvs2"
    by (auto simp: range_of_def distinct_map)
  then have "mset kvs1 = mset kvs2" by (simp add: set_eq_iff_mset_eq_distinct)
  then have "mset (map (\<lambda>(k, v). CallPull (GetE2EImage v)) kvs1) =
             mset (map (\<lambda>(k, v). CallPull (GetE2EImage v)) kvs2)"
    by (metis mset_map)
  then show "calls (pull_loop E kvs1 w) = calls w @ map (\<lambda>(k, v). CallPull (GetE2EImage v)) kvs1
   \<and> calls (pull_loop E kvs2 w) = calls w @ map (\<lambda>(k, v). CallPull (GetE2EImage v)) kvs2
   \<and> mset (calls (pull_loop E kvs1 w)) = mset (calls (pull_loop E kvs2 w))"
    by (simp add: pull_loop_calls)
qed

theorem pull_order_is_range_order_witness:
  "range_of [(''conformance'', conformance_img), (''busybox'', busybox_img)]
     [(''conformance'', conformance_img), (''busybox'', busybox_img)]
   \<and> range_of [(''conformance'', conformance_img), (''busybox'', busybox_img)]
     [(''busybox'', busybox_img), (''conformance'', conformance_img)]
   \<and> calls (pull_loop env_ok [(''busybox'', busybox_img), (''conformance'', conformance_img)]
        (world_init 0)) =
      [CallPull ''docker.io/library/busybox:1.18.0'', CallPull ''k8s.gcr.io/conformance:1.18.0'']
   \<and> mset (calls (pull_loop env_ok
        [(''conformance'', conformance_img), (''busybox'', busybox_img)] (world_init 0))) =
     mset (calls (pull_loop env_ok
        [(''busybox'', busybox_img), (''conformance'', conformance_img)] (world_init 0)))"
proof -
  have r: "range_of [(''conformance'', conformance_img), (''busybox'', busybox_img)]
     [(''conformance'', conformance_img), (''busybox'', busybox_img)]
   \<and> range_of [(''conformance'', conformance_img), (''busybox'', busybox_img)]
     [(''busybox'', busybox_img), (''conformance'', conformance_img)]"
    by (simp add: range_of_def insert_commute)
  note t = pull_order_is_range_order
    [where m = "[(''conformance'', conformance_img), (''busybox'', busybox_img)]"
       and ?kvs1.0 = "[(''conformance'', conformance_img), (''busybox'', busybox_img)]"
       and ?kvs2.0 = "[(''busybox'', busybox_img), (''conformance'', conformance_img)]"
       and E = env_ok and w = "world_init 0"]
  have g: "GetE2EImage busybox_img = ''docker.io/library/busybox:1.18.0''"
    "GetE2EImage conformance_img = ''k8s.gcr.io/conformance:1.18.0''"
    by (simp_all add: busybox_img_def conformance_img_def GetE2EImage_def)
  have c: "calls (world_init 0) = []"
    by (simp add: world_init_def)
  from t r show ?thesis
    by (simp add: g c del: pull_loop.simps)
qed


section \<open>The tag-and-push batch\<close>

lemma push_calls_Inr:
  "json_Marshal E auth = Inr authBytes \<Longrightarrow>
   push_calls E auth src target =
     [CallTag (GetE2EImage src) (GetE2EImage target),
      CallPush (GetE2EImage target) (EncodeToString authBytes)]"
  by (simp add: push_calls_def)

lemma refs:
  "GetE2EImage busybox_img = ''docker.io/library/busybox:1.18.0''"
  "GetE2EImage conformance_img = ''k8s.gcr.io/conformance:1.18.0''"
  "GetE2EImage private_busybox = ''registry.local/mirror/busybox:1.18.0''"
  "GetE2EImage zero_Config = ''/:''"
  by (simp_all add: busybox_img_def conformance_img_def private_busybox_def zero_Config_def
      GetE2EImage_def)

lemma tag_always_fails: "image_tag env_tag_fails s t = Some ''No such image''"
  by (simp add: env_tag_fails_def)

lemma admin_header:
  "EncodeToString (sample_json admin_auth) =
     ''eyJ1c2VybmFtZSI6ImFkbWluIiwicGFzc3dvcmQiOiJodW50ZXIyIn0=''"
  by (simp add: sample_json_def admin_auth_def dquote_def enc6_def encodeURL_def)

text \<open>
  C2 as stated: for an image whose tagging step fails, the push step is not attempted. It
  is attempted: with an engine that refuses every tag, the batch over one image logs the
  tagging error and still sends the push request for that image.
\<close>

theorem push_follows_failed_tag:
  "image_tag env_tag_fails (GetE2EImage busybox_img) (GetE2EImage private_busybox) =
     Some ''No such image''
   \<and> calls (push_loop env_tag_fails admin_auth [(''busybox'', private_busybox)]
        [(''busybox'', busybox_img)] (world_init 0)) =
      [CallTag ''docker.io/library/busybox:1.18.0'' ''registry.local/mirror/busybox:1.18.0'',
       CallPush ''registry.local/mirror/busybox:1.18.0''
         ''eyJ1c2VybmFtZSI6ImFkbWluIiwicGFzc3dvcmQiOiJodW50ZXIyIn0='']
   \<and> errlog (push_loop env_tag_fails admin_auth [(''busybox'', private_busybox)]
        [(''busybox'', busybox_img)] (world_init 0)) =
      [''couldn't tag image: docker.io/library/busybox:1.18.0: error tagging image: registry.local/mirror/busybox:1.18.0: No such image'']"
proof -
  have j: "json_Marshal env_tag_fails admin_auth = Inr (sample_json admin_auth)"
    by (simp add: env_tag_fails_def env_ok_def)
  have i: "index_map [(''busybox'', private_busybox)] ''busybox'' = private_busybox"
    by (simp add: index_map_def)
  have t: "image_tag env_tag_fails (GetE2EImage busybox_img) (GetE2EImage private_busybox) =
     Some ''No such image''"
    by (simp add: env_tag_fails_def)
  have p: "push_result env_tag_fails private_busybox admin_auth = None"
    by (simp add: push_result_def PushImage_def ImagePush_def open_body_def Close_def
        env_tag_fails_def env_ok_def sDM_steps ReadAll_steps world_init_def)
  show ?thesis
    by (simp add: push_loop_calls push_loop_errlog push_calls_Inr[OF j] i p refs admin_header
        tag_always_fails tag_log_def push_log_def Wrap_def world_init_def del: push_loop.simps)
qed

text \<open>
  C2, amended. For an image \<open>v\<close> whose tagging step fails, the failure is logged and the push
  of that image is requested all the same, right after the tag request; the batch then
  goes on with the tag and push requests of the remaining images \<open>post\<close>.
\<close>

theorem push_attempted_after_failed_tag:
  assumes "json_Marshal E auth = Inr authBytes"
    and "image_tag E (GetE2EImage v) (GetE2EImage (index_map privateImages k)) = Some err"
  shows "calls (push_loop E auth privateImages (pre @ (k, v) # post) w) =
           calls (push_loop E auth privateImages pre w) @
           [CallTag (GetE2EImage v) (GetE2EImage (index_map privateImages k)),
            CallPush (GetE2EImage (index_map privateImages k)) (EncodeToString authBytes)] @
           concat (map (\<lambda>(k, v).
             [CallTag (GetE2EImage v) (GetE2EImage (index_map privateImages k)),
              CallPush (GetE2EImage (index_map privateImages k)) (EncodeToString authBytes)])
             post)
       \<and> Wrap (Wrap err (''error tagging image: '' @ GetE2EImage (index_map privateImages k)))
            (''couldn't tag image: '' @ GetE2EImage v)
           \<in> set (errlog (push_loop E auth privateImages (pre @ (k, v) # post) w))"
proof -
  have "(\<lambda>(k, v). push_calls E auth v (index_map privateImages k)) =
        (\<lambda>(k, v). [CallTag (GetE2EImage v) (GetE2EImage (index_map privateImages k)),
           CallPush (GetE2EImage (index_map privateImages k)) (EncodeToString authBytes)])"
    using assms(1) by (simp add: push_calls_def)
  then show ?thesis
    using assms(2) by (simp add: push_loop_calls push_loop_errlog tag_log_def)
qed

theorem push_attempted_after_failed_tag_witness:
  "json_Marshal env_tag_fails admin_auth = Inr (sample_json admin_auth)
   \<and> image_tag env_tag_fails (GetE2EImage conformance_img)
        (GetE2EImage (index_map [(''busybox'', private_busybox)] ''conformance'')) =
       Some ''No such image''
   \<and> calls (push_loop env_tag_fails admin_auth [(''busybox'', private_busybox)]
        ([] @ (''conformance'', conformance_img) # [(''busybox'', busybox_img)]) (world_init 0)) =
      [CallTag ''k8s.gcr.io/conformance:1.18.0'' ''/:'',
       CallPush ''/:'' ''eyJ1c2VybmFtZSI6ImFkbWluIiwicGFzc3dvcmQiOiJodW50ZXIyIn0='',
       CallTag ''docker.io/library/busybox:1.18.0'' ''registry.local/mirror/busybox:1.18.0'',
       CallPush ''registry.local/mirror/busybox:1.18.0''
         ''eyJ1c2VybmFtZSI6ImFkbWluIiwicGFzc3dvcmQiOiJodW50ZXIyIn0='']
   \<and> ''couldn't tag image: k8s.gcr.io/conformance:1.18.0: error tagging image: /:: No such image''
       \<in> set (errlog (push_loop env_tag_fails admin_auth [(''busybox'', private_busybox)]
        ([] @ (''conformance'', conformance_img) # [(''busybox'', busybox_img)]) (world_init 0)))"
proof -
  have j: "json_Marshal env_tag_fails admin_auth = Inr (sample_json admin_auth)"
    by (simp add: env_tag_fails_def env_ok_def)
  have t: "image_tag env_tag_fails (GetE2EImage conformance_img)
        (GetE2EImage (index_map [(''busybox'', private_busybox)] ''conformance'')) =
       Some ''No such image''"
    by (simp add: env_tag_fails_def)
  have i: "index_map [(''busybox'', private_busybox)] ''conformance'' = zero_Config"
    "index_map [(''busybox'', private_busybox)] ''busybox'' = private_busybox"
    by (simp_all add: index_map_def)
  have c: "calls (world_init 0) = []" by (simp add: world_init_def)
  note w = push_attempted_after_failed_tag
    [OF j t, of "[]" "[(''busybox'', busybox_img)]" "world_init 0"]
  have e: "push_loop env_tag_fails admin_auth [(''busybox'', private_busybox)] [] (world_init 0)
           = world_init 0"
    by simp
  from w show ?thesis
    by (simp add: j i c e refs admin_header tag_always_fails Wrap_def del: push_loop.simps)
qed

section \<open>The registry auth header\<close>

text \<open>The encoder on the test vectors of RFC 4648, and the shape of its output.\<close>

lemma EncodeToString_test_vectors:
  "EncodeToString [] = [] \<and> EncodeToString ''f'' = ''Zg=='' \<and>
   EncodeToString ''fo'' = ''Zm8='' \<and> EncodeToString ''foo'' = ''Zm9v'' \<and>
   EncodeToString ''foob'' = ''Zm9vYg=='' \<and> EncodeToString ''fooba'' = ''Zm9vYmE='' \<and>
   EncodeToString ''foobar'' = ''Zm9vYmFy'' \<and>
   EncodeToString [CHR 0xfb, CHR 0xff] = ''-_8=''"
  by (simp add: enc6_def encodeURL_def)

lemma length_EncodeToString: "length (EncodeToString s) = 4 * ((length s + 2) div 3)"
proof (induction s rule: EncodeToString.induct)
  case (4 a b c rest)
  then have IH: "length (EncodeToString rest) = 4 * ((length rest + 2) div 3)" by simp
  have "(length (a # b # c # rest) + 2) div 3 = (length rest + 2) div 3 + 1" by simp
  then show ?case by (simp add: Let_def IH)
qed (simp_all add: Let_def)

lemma enc6_in_alphabet: "enc6 n \<in> set encodeURL"
proof -
  have "length encodeURL = 64" by (simp add: encodeURL_def)
  then have "n mod 64 < length encodeURL" by simp
  then show ?thesis unfolding enc6_def by (rule nth_mem)
qed

lemma EncodeToString_alphabet: "set (EncodeToString s) \<subseteq> set encodeURL \<union> {CHR ''=''}"
proof (induction s rule: EncodeToString.induct)
  case (4 a b c rest)
  then have IH: "set (EncodeToString rest) \<subseteq> set encodeURL \<union> {CHR ''=''}" by simp
  then show ?case by (auto simp add: Let_def enc6_in_alphabet)
qed (simp_all add: Let_def enc6_in_alphabet)

text \<open>
  C8. For every username and password, \<^verbatim>\<open>PushImage\<close> sends one push request, and the
  registry auth value of that request is the base64 encoding (URL-safe alphabet, padded) of
  the JSON serialization of the \<^verbatim>\<open>AuthConfig\<close> holding that username and password, with
  nothing else done to it. When the serialization fails, \<^verbatim>\<open>PushImage\<close> returns the error and
  sends no request.
\<close>

theorem PushImage_registry_auth:
  "(json_Marshal E auth = Inr authBytes \<longrightarrow>
      calls (snd (PushImage E img auth w)) =
        calls w @ [CallPush (GetE2EImage img) (EncodeToString authBytes)])
   \<and> (json_Marshal E auth = Inl err \<longrightarrow>
      PushImage E img auth w = (Some (Wrap err ''error marshaling username/password''), w))"
  by (simp add: PushImage_keeps) (simp add: PushImage_def)

theorem PushImage_registry_auth_witness:
  "json_Marshal env_ok admin_auth = Inr (sample_json admin_auth)
   \<and> calls (snd (PushImage env_ok private_busybox admin_auth (world_init 0))) =
       [CallPush ''registry.local/mirror/busybox:1.18.0''
          ''eyJ1c2VybmFtZSI6ImFkbWluIiwicGFzc3dvcmQiOiJodW50ZXIyIn0='']
   \<and> json_Marshal (env_ok\<lparr>json_Marshal := (\<lambda>a. Inl ''unsupported value'')\<rparr>) admin_auth =
       Inl ''unsupported value''
   \<and> calls (snd (PushImage (env_ok\<lparr>json_Marshal := (\<lambda>a. Inl ''unsupported value'')\<rparr>)
        private_busybox admin_auth (world_init 0))) = []"
proof -
  have j: "json_Marshal env_ok admin_auth = Inr (sample_json admin_auth)"
    by (simp add: env_ok_def)
  have j2: "json_Marshal (env_ok\<lparr>json_Marshal := (\<lambda>a. Inl ''unsupported value'')\<rparr>) admin_auth =
       Inl ''unsupported value''"
    by simp
  have c: "calls (world_init 0) = []" by (simp add: world_init_def)
  note t1 = PushImage_registry_auth [where E = env_ok and auth = admin_auth
      and authBytes = "sample_json admin_auth" and img = private_busybox and w = "world_init 0"]
  note t2 = PushImage_registry_auth
    [where E = "env_ok\<lparr>json_Marshal := (\<lambda>a. Inl ''unsupported value'')\<rparr>"
      and auth = admin_auth and err = "''unsupported value''" and img = private_busybox
      and w = "world_init 0"]
  from t1 t2 j j2 show ?thesis
    by (simp add: c refs admin_header)
qed

section \<open>Resolution of the override file\<close>

subsection \<open>listImages\<close>

lemma IsNotExist_iff:
  "os_IsNotExist (os_Stat E w path) \<longleftrightarrow> path_fault E path = None \<and> files w path = None"
  by (simp add: os_IsNotExist_def os_Stat_def split: option.split)

lemma print_images_eq:
  "print_images kvs w = w\<lparr>stdout := stdout w @ map (\<lambda>(k, v). GetE2EImage v @ newline) kvs\<rparr>"
  by (induction kvs arbitrary: w) (auto simp: Println_def Print_def)

lemma NewRegistryList_empty:
  "NewRegistryList E [] version w = Inr \<lparr>entries = registry_defaults E, K8sVersion = version\<rparr>"
  by (simp add: NewRegistryList_def)

lemma listImages_e2e_files:
  "listImages_e2e E (w\<lparr>files := f\<rparr>) =
     (fst (listImages_e2e E w), (snd (listImages_e2e E w))\<lparr>files := f\<rparr>)"
  by (simp add: listImages_e2e_def NewRegistryList_empty LogError_def print_images_eq
      split: option.split sum.split)

lemma listImages_e2e_calls: "calls (snd (listImages_e2e E w)) = calls w"
  by (simp add: listImages_e2e_def NewRegistryList_empty LogError_def print_images_eq
      split: option.split sum.split)

text \<open>
  C9. When \<^verbatim>\<open>listImages\<close> is given a non-empty override file path and the file exists, the
  run is the run with no override path at all; replacing the contents of the file changes
  neither the outcome nor anything the run writes; no request goes to the engine; and when
  the cluster version is found, the references printed are those of the built-in table,
  tagged with that version. The path is looked at only by the existence check.
\<close>

theorem listImages_ignores_override_contents:
  "e2eRegistryConfig fl \<noteq> [] \<and> files w (e2eRegistryConfig fl) = Some contents \<longrightarrow>
     listImages E fl w = listImages E (fl\<lparr>e2eRegistryConfig := []\<rparr>) w
   \<and> listImages E fl (w\<lparr>files := (files w)(e2eRegistryConfig fl \<mapsto> contents')\<rparr>) =
       (fst (listImages E fl w),
        (snd (listImages E fl w))\<lparr>files := (files w)(e2eRegistryConfig fl \<mapsto> contents')\<rparr>)
   \<and> calls (snd (listImages E fl w)) = calls w
   \<and> (plugin fl = ''e2e'' \<and> kubeconfig_Get E = None \<and> getSonobuoyClient E = None \<and>
      sbc_Version E = Inr version \<and>
      GetImageConfigs E \<lparr>entries = registry_defaults E, K8sVersion = version\<rparr> = Inr images \<longrightarrow>
      listImages E fl w = (Returned, print_images (go_range E images) w))"
proof (intro impI conjI)
  assume a: "e2eRegistryConfig fl \<noteq> [] \<and> files w (e2eRegistryConfig fl) = Some contents"
  show "listImages E fl w = listImages E (fl\<lparr>e2eRegistryConfig := []\<rparr>) w"
    using a by (simp add: listImages_def IsNotExist_iff)
  show "listImages E fl (w\<lparr>files := (files w)(e2eRegistryConfig fl \<mapsto> contents')\<rparr>) =
       (fst (listImages E fl w),
        (snd (listImages E fl w))\<lparr>files := (files w)(e2eRegistryConfig fl \<mapsto> contents')\<rparr>)"
    using a by (simp add: listImages_def IsNotExist_iff listImages_e2e_files LogError_def)
  show "calls (snd (listImages E fl w)) = calls w"
    using a by (simp add: listImages_def IsNotExist_iff listImages_e2e_calls LogError_def)
  show "listImages E fl w = (Returned, print_images (go_range E images) w)"
    if "plugin fl = ''e2e'' \<and> kubeconfig_Get E = None \<and> getSonobuoyClient E = None \<and>
      sbc_Version E = Inr version \<and>
      GetImageConfigs E \<lparr>entries = registry_defaults E, K8sVersion = version\<rparr> = Inr images"
    using a that
    by (simp add: listImages_def IsNotExist_iff listImages_e2e_def NewRegistryList_empty)
qed

lemma GetImages_override:
  "GetImages env_override ''repos.yaml'' ''1.18.0'' world_override =
     Inr [(''conformance'', conformance_img\<lparr>registryHost := ''myregistry.local''\<rparr>),
          (''busybox'', busybox_img)]"
  by (simp add: GetImages_def NewRegistryList_def ReadFile_def GetImageConfigs_def add_entry_def
      env_override_def env_ok_def world_override_def world_init_def override_yaml_def
      apply_override_def split_base_def conformance_img_def busybox_img_def)

theorem listImages_ignores_override_contents_witness:
  "e2eRegistryConfig flags_override \<noteq> []
   \<and> files world_override (e2eRegistryConfig flags_override) = Some override_yaml
   \<and> GetImages env_override ''repos.yaml'' ''1.18.0'' world_override =
       Inr [(''conformance'', conformance_img\<lparr>registryHost := ''myregistry.local''\<rparr>),
            (''busybox'', busybox_img)]
   \<and> listImages env_override flags_override world_override =
       listImages env_override flags_e2e world_override
   \<and> fst (listImages env_override flags_override
         (world_override\<lparr>files := (files world_override)(''repos.yaml'' \<mapsto> ''- a list'')\<rparr>)) =
       fst (listImages env_override flags_override world_override)
   \<and> listImages env_override flags_override world_override =
       (Returned, world_override\<lparr>stdout :=
          [''k8s.gcr.io/conformance:1.18.0'' @ newline,
           ''docker.io/library/busybox:1.18.0'' @ newline]\<rparr>)"
proof -
  have a: "e2eRegistryConfig flags_override \<noteq> []"
    "files world_override (e2eRegistryConfig flags_override) = Some override_yaml"
    "e2eRegistryConfig flags_override = ''repos.yaml''"
    "flags_override\<lparr>e2eRegistryConfig := []\<rparr> = flags_e2e"
    "plugin flags_override = ''e2e''"
    by (simp_all add: flags_override_def flags_e2e_def world_override_def)
  have e: "kubeconfig_Get env_override = None" "getSonobuoyClient env_override = None"
    "sbc_Version env_override = Inr ''1.18.0''" "go_range env_override = (\<lambda>m. m)"
    "GetImageConfigs env_override
       \<lparr>entries = registry_defaults env_override, K8sVersion = ''1.18.0''\<rparr> =
     Inr [(''conformance'', conformance_img), (''busybox'', busybox_img)]"
    by (simp_all add: env_override_def env_ok_def GetImageConfigs_def add_entry_def
        conformance_img_def busybox_img_def)
  have s: "stdout world_override = []" by (simp add: world_override_def world_init_def)
  note t = listImages_ignores_override_contents
    [where fl = flags_override and w = world_override and contents = override_yaml
       and E = env_override and contents' = "''- a list''" and version = "''1.18.0''"
       and images = "[(''conformance'', conformance_img), (''busybox'', busybox_img)]"]
  from t a(1,2) have t0:
    "listImages env_override flags_override world_override =
       listImages env_override (flags_override\<lparr>e2eRegistryConfig := []\<rparr>) world_override"
    "listImages env_override flags_override
       (world_override\<lparr>files := (files world_override)
          (e2eRegistryConfig flags_override \<mapsto> ''- a list'')\<rparr>) =
     (fst (listImages env_override flags_override world_override),
      (snd (listImages env_override flags_override world_override))
        \<lparr>files := (files world_override)
          (e2eRegistryConfig flags_override \<mapsto> ''- a list'')\<rparr>)"
    "plugin flags_override = ''e2e'' \<and> kubeconfig_Get env_override = None \<and>
     getSonobuoyClient env_override = None \<and> sbc_Version env_override = Inr ''1.18.0'' \<and>
     GetImageConfigs env_override
       \<lparr>entries = registry_defaults env_override, K8sVersion = ''1.18.0''\<rparr> =
     Inr [(''conformance'', conformance_img), (''busybox'', busybox_img)] \<longrightarrow>
     listImages env_override flags_override world_override =
       (Returned, print_images (go_range env_override
          [(''conformance'', conformance_img), (''busybox'', busybox_img)]) world_override)"
    by blast+
  from t0(1) have r1: "listImages env_override flags_override world_override =
       listImages env_override flags_e2e world_override"
    by (simp only: a(4))
  from t0(2) have r2: "fst (listImages env_override flags_override
         (world_override\<lparr>files := (files world_override)(''repos.yaml'' \<mapsto> ''- a list'')\<rparr>)) =
       fst (listImages env_override flags_override world_override)"
    by (simp only: a(3) fst_conv)
  from t0(3) a(5) e have "listImages env_override flags_override world_override =
       (Returned, print_images [(''conformance'', conformance_img), (''busybox'', busybox_img)]
          world_override)"
    by simp
  then have r3: "listImages env_override flags_override world_override =
       (Returned, world_override\<lparr>stdout :=
          [''k8s.gcr.io/conformance:1.18.0'' @ newline,
           ''docker.io/library/busybox:1.18.0'' @ newline]\<rparr>)"
    by (simp add: print_images_eq refs s)
  from a(1,2) GetImages_override r1 r2 r3 show ?thesis by blast
qed

section \<open>The names of the tag-and-push batch\<close>

text \<open>
  Both image sets of \<^verbatim>\<open>pushImages\<close> come from \<^verbatim>\<open>GetImages\<close>, which fills a map from the built-in
  table; an override file changes registries, never logical names. So the source set and the
  destination set hold the same names.
\<close>

lemma add_entry_keys:
  "map fst (add_entry ver e m) =
     (if fst e \<in> set (map fst m) then map fst m else map fst m @ [fst e])"
  by (cases e) (simp add: add_entry_def AList.update_keys)

lemma fold_add_entry_keys:
  "map fst m1 = map fst m2 \<Longrightarrow> map fst es1 = map fst es2 \<Longrightarrow>
   map fst (fold (add_entry ver) es1 m1) = map fst (fold (add_entry ver) es2 m2)"
proof (induction es1 arbitrary: es2 m1 m2)
  case Nil
  then show ?case by simp
next
  case (Cons e es1)
  then obtain e' es2' where es2: "es2 = e' # es2'" "fst e = fst e'" "map fst es1 = map fst es2'"
    by (cases es2) auto
  have "map fst (add_entry ver e m1) = map fst (add_entry ver e' m2)"
    using Cons.prems(1) es2(2) by (simp only: add_entry_keys)
  from Cons.IH[OF this es2(3)] show ?case by (simp add: es2(1))
qed

lemma fold_add_entry_distinct:
  "distinct (map fst m) \<Longrightarrow> distinct (map fst (fold (add_entry ver) es m))"
  by (induction es arbitrary: m) (simp_all add: add_entry_keys)

lemma apply_override_fst: "fst (apply_override ov e) = fst e"
  by (cases e) (simp add: apply_override_def split: option.split)

lemma GetImages_same_names:
  assumes "GetImages E [] version w = Inr upstreamImages"
    and "GetImages E path version w' = Inr privateImages"
  shows "map fst upstreamImages = map fst privateImages \<and> distinct (map fst upstreamImages)"
proof -
  from assms(1) have u: "upstreamImages = fold (add_entry version) (registry_defaults E) []"
    by (auto simp add: GetImages_def NewRegistryList_def GetImageConfigs_def
        split: if_splits)
  from assms(2) obtain es where p: "privateImages = fold (add_entry version) es []"
    and es: "map fst es = map fst (registry_defaults E)"
    by (auto simp add: GetImages_def NewRegistryList_def GetImageConfigs_def apply_override_fst
        split: if_splits sum.splits)
  have "map fst upstreamImages = map fst privateImages"
    unfolding u p by (rule fold_add_entry_keys) (simp_all add: es)
  moreover have "distinct (map fst upstreamImages)"
    unfolding u by (rule fold_add_entry_distinct) simp
  ultimately show ?thesis by simp
qed

lemma index_map_Some: "map_of m k = Some d \<Longrightarrow> index_map m k = d"
  by (simp add: index_map_def)


lemma pushImages_resolved_runs_loop:
  "kubeconfig_Get E = None \<Longrightarrow> getSonobuoyClient E = None \<Longrightarrow> sbc_Version E = Inr version \<Longrightarrow>
   new_docker_client E = None \<Longrightarrow>
   GetImages E [] version w = Inr upstreamImages \<Longrightarrow>
   GetImages E (e2eRegistryConfig fl) version w = Inr privateImages \<Longrightarrow>
   pushImages_resolved E fl w =
     (Returned, push_loop E \<lparr>Username = username fl, Password = password fl\<rparr> privateImages
        (go_range E upstreamImages) w)"
  by (simp add: pushImages_resolved_def)

text \<open>
  C3. Let the source set be resolved with no override file and the destination set with the
  override file of the flags, as \<^verbatim>\<open>pushImages\<close> does, and let the range deliver the entries of
  the source set. Then the names the batch visits are exactly the logical names present in
  both sets, each once. For each of them the source image and the destination image are the
  entries of the two sets, and the engine receives, after what it had received before, one tag
  request from the source reference to the destination reference followed by one push of the
  destination reference with the encoded credentials, and nothing else: no tag or push is
  issued for a name absent from the destination set. With the cluster and the engine
  reachable, this loop is what \<^verbatim>\<open>pushImages\<close> runs once the password is settled.
\<close>

theorem push_batch_covers_common_names:
  assumes "GetImages E [] version w = Inr upstreamImages"
    and "GetImages E (e2eRegistryConfig fl) version w = Inr privateImages"
    and "range_of upstreamImages kvs"
    and "json_Marshal E auth = Inr authBytes"
  shows "set (map fst kvs) = set (map fst upstreamImages) \<inter> set (map fst privateImages)
     \<and> distinct (map fst kvs)
     \<and> (\<forall>(k, v) \<in> set kvs. map_of upstreamImages k = Some v \<and>
          (\<exists>d. map_of privateImages k = Some d \<and> index_map privateImages k = d))
     \<and> calls (push_loop E auth privateImages kvs w) =
         calls w @ concat (map (\<lambda>(k, v).
           [CallTag (GetE2EImage v) (GetE2EImage (index_map privateImages k)),
            CallPush (GetE2EImage (index_map privateImages k)) (EncodeToString authBytes)]) kvs)
     \<and> (kubeconfig_Get E = None \<and> getSonobuoyClient E = None \<and> sbc_Version E = Inr version \<and>
        new_docker_client E = None \<and> kvs = go_range E upstreamImages \<and>
        auth = \<lparr>Username = username fl, Password = password fl\<rparr> \<longrightarrow>
        pushImages_resolved E fl w = (Returned, push_loop E auth privateImages kvs w))"
proof -
  from GetImages_same_names[OF assms(1,2)]
  have n: "map fst upstreamImages = map fst privateImages" "distinct (map fst upstreamImages)"
    by blast+
  from assms(3) have r: "distinct (map fst kvs)" "set kvs = set upstreamImages"
    by (simp_all add: range_of_def)
  have ks: "fst ` set upstreamImages = fst ` set privateImages"
    using arg_cong[OF n(1), of set] by simp
  have names: "set (map fst kvs) = set (map fst upstreamImages) \<inter> set (map fst privateImages)"
    using r(2) ks by simp
  have each: "map_of upstreamImages k = Some v \<and>
          (\<exists>d. map_of privateImages k = Some d \<and> index_map privateImages k = d)"
    if "(k, v) \<in> set kvs" for k v
  proof -
    from that r(2) have m: "(k, v) \<in> set upstreamImages" by simp
    with n(2) have "map_of upstreamImages k = Some v" by simp
    moreover from m ks have "k \<in> fst ` set privateImages"
      by force
    then obtain d where "map_of privateImages k = Some d"
      by (metis map_of_eq_None_iff not_Some_eq)
    ultimately show ?thesis by (simp add: index_map_Some)
  qed
  have "(\<lambda>(k, v). push_calls E auth v (index_map privateImages k)) =
        (\<lambda>(k, v). [CallTag (GetE2EImage v) (GetE2EImage (index_map privateImages k)),
           CallPush (GetE2EImage (index_map privateImages k)) (EncodeToString authBytes)])"
    using assms(4) by (simp add: push_calls_def)
  then have tr: "calls (push_loop E auth privateImages kvs w) =
         calls w @ concat (map (\<lambda>(k, v).
           [CallTag (GetE2EImage v) (GetE2EImage (index_map privateImages k)),
            CallPush (GetE2EImage (index_map privateImages k)) (EncodeToString authBytes)]) kvs)"
    by (simp add: push_loop_calls)
  have run: "pushImages_resolved E fl w = (Returned, push_loop E auth privateImages kvs w)"
    if "kubeconfig_Get E = None \<and> getSonobuoyClient E = None \<and> sbc_Version E = Inr version \<and>
        new_docker_client E = None \<and> kvs = go_range E upstreamImages \<and>
        auth = \<lparr>Username = username fl, Password = password fl\<rparr>"
    using that assms(1,2) by (simp add: pushImages_resolved_runs_loop)
  from names r(1) each tr run show ?thesis by blast
qed

lemma GetImages_upstream:
  "GetImages env_override [] ''1.18.0'' w =
     Inr [(''conformance'', conformance_img), (''busybox'', busybox_img)]"
  by (simp add: GetImages_def NewRegistryList_def GetImageConfigs_def add_entry_def
      env_override_def env_ok_def conformance_img_def busybox_img_def)

lemma GetImages_private:
  "GetImages env_override ''repos.yaml'' ''1.18.0'' world_override =
     Inr [(''conformance'', private_conformance), (''busybox'', busybox_img)]"
  by (simp add: GetImages_override private_conformance_def)


theorem push_batch_covers_common_names_witness:
  "GetImages env_override [] ''1.18.0'' world_override =
     Inr [(''conformance'', conformance_img), (''busybox'', busybox_img)]
   \<and> GetImages env_override (e2eRegistryConfig flags_push) ''1.18.0'' world_override =
     Inr [(''conformance'', private_conformance), (''busybox'', busybox_img)]
   \<and> range_of [(''conformance'', conformance_img), (''busybox'', busybox_img)]
        (go_range env_override [(''conformance'', conformance_img), (''busybox'', busybox_img)])
   \<and> json_Marshal env_override admin_auth = Inr (sample_json admin_auth)
   \<and> fst (pushImages_resolved env_override flags_push world_override) = Returned
   \<and> calls (snd (pushImages_resolved env_override flags_push world_override)) =
      [CallTag ''k8s.gcr.io/conformance:1.18.0'' ''myregistry.local/conformance:1.18.0'',
       CallPush ''myregistry.local/conformance:1.18.0''
         ''eyJ1c2VybmFtZSI6ImFkbWluIiwicGFzc3dvcmQiOiJodW50ZXIyIn0='',
       CallTag ''docker.io/library/busybox:1.18.0'' ''docker.io/library/busybox:1.18.0'',
       CallPush ''docker.io/library/busybox:1.18.0''
         ''eyJ1c2VybmFtZSI6ImFkbWluIiwicGFzc3dvcmQiOiJodW50ZXIyIn0='']"
proof -
  have p: "e2eRegistryConfig flags_push = ''repos.yaml''"
    "admin_auth = \<lparr>Username = username flags_push, Password = password flags_push\<rparr>"
    by (simp_all add: flags_push_def flags_override_def flags_e2e_def admin_auth_def)
  have o: "go_range env_override [(''conformance'', conformance_img), (''busybox'', busybox_img)] =
      [(''conformance'', conformance_img), (''busybox'', busybox_img)]"
    by (simp add: env_override_def env_ok_def)
  have r: "range_of [(''conformance'', conformance_img), (''busybox'', busybox_img)]
        (go_range env_override [(''conformance'', conformance_img), (''busybox'', busybox_img)])"
    by (simp add: o range_of_def)
  have j: "json_Marshal env_override admin_auth = Inr (sample_json admin_auth)"
    by (simp add: env_override_def env_ok_def)
  have e: "kubeconfig_Get env_override = None" "getSonobuoyClient env_override = None"
    "sbc_Version env_override = Inr ''1.18.0''" "new_docker_client env_override = None"
    by (simp_all add: env_override_def env_ok_def)
  have i: "index_map [(''conformance'', private_conformance), (''busybox'', busybox_img)]
             ''busybox'' = busybox_img"
    "index_map [(''conformance'', private_conformance), (''busybox'', busybox_img)]
             ''conformance'' = private_conformance"
    by (simp_all add: index_map_def)
  have g: "GetE2EImage private_conformance = ''myregistry.local/conformance:1.18.0''"
    by (simp add: private_conformance_def conformance_img_def GetE2EImage_def)
  have c: "calls world_override = []" by (simp add: world_override_def world_init_def)
  have u: "GetImages env_override [] ''1.18.0'' world_override =
     Inr [(''conformance'', conformance_img), (''busybox'', busybox_img)]"
    by (rule GetImages_upstream)
  have v: "GetImages env_override (e2eRegistryConfig flags_push) ''1.18.0'' world_override =
     Inr [(''conformance'', private_conformance), (''busybox'', busybox_img)]"
    by (simp only: p(1) GetImages_private)
  note t = push_batch_covers_common_names [OF u v r j]
  from t e p(2) have run: "pushImages_resolved env_override flags_push world_override =
     (Returned, push_loop env_override admin_auth
        [(''conformance'', private_conformance), (''busybox'', busybox_img)]
        (go_range env_override [(''conformance'', conformance_img), (''busybox'', busybox_img)])
        world_override)"
    by blast
  from t have "calls (push_loop env_override admin_auth
        [(''conformance'', private_conformance), (''busybox'', busybox_img)]
        (go_range env_override [(''conformance'', conformance_img), (''busybox'', busybox_img)])
        world_override) =
      [CallTag ''k8s.gcr.io/conformance:1.18.0'' ''myregistry.local/conformance:1.18.0'',
       CallPush ''myregistry.local/conformance:1.18.0''
         ''eyJ1c2VybmFtZSI6ImFkbWluIiwicGFzc3dvcmQiOiJodW50ZXIyIn0='',
       CallTag ''docker.io/library/busybox:1.18.0'' ''docker.io/library/busybox:1.18.0'',
       CallPush ''docker.io/library/busybox:1.18.0''
         ''eyJ1c2VybmFtZSI6ImFkbWluIiwicGFzc3dvcmQiOiJodW50ZXIyIn0='']"
    by (simp add: o i g c refs admin_header del: push_loop.simps)
  with u v r j run show ?thesis by simp
qed

section \<open>Failures of the override file\<close>

subsection \<open>Resolution and the commands\<close>


lemma GetImages_malformed_file:
  "path \<noteq> [] \<Longrightarrow> path_fault E path = None \<Longrightarrow> files w path = Some contents \<Longrightarrow>
   yaml_Unmarshal E contents = Inl err \<Longrightarrow>
   GetImages E path version w =
     Inl (Wrap (OverrideParseError err) ''couldn't init Registry List'')"
  by (simp add: GetImages_def NewRegistryList_def ReadFile_def)

lemma ReadFile_files: "files w1 = files w \<Longrightarrow> ReadFile E w1 path = ReadFile E w path"
  by (auto simp add: ReadFile_def split: option.split)

lemma GetImages_files:
  "files w1 = files w \<Longrightarrow> GetImages E path version w1 = GetImages E path version w"
  using ReadFile_files[of w1 w E path] by (simp add: GetImages_def NewRegistryList_def)

lemma deleteImages_failed_resolution:
  "(\<And>version. sbc_Version E = Inr version \<Longrightarrow>
      \<exists>err. GetImages E (e2eRegistryConfig fl) version w = Inl err) \<Longrightarrow>
   \<exists>msg. deleteImages E fl w = (Exited 1, LogError msg w)"
  by (fastforce simp add: deleteImages_def split: option.split sum.split)

lemma deleteImages_reports_resolution:
  "plugin fl = ''e2e'' \<Longrightarrow> kubeconfig_Get E = None \<Longrightarrow> getSonobuoyClient E = None \<Longrightarrow>
   sbc_Version E = Inr version \<Longrightarrow>
   GetImages E (e2eRegistryConfig fl) version w = Inl err \<Longrightarrow>
   deleteImages E fl w =
     (Exited 1, LogError (Wrap err ''couldn't init upstream registry list'') w)"
  by (simp add: deleteImages_def)

lemma registry_password_calls:
  "calls (snd (registry_password E fl w)) = calls w"
  by (simp add: registry_password_def Print_def LogError_def Let_def
      split: option.split sum.split)

lemma registry_password_files:
  "files (snd (registry_password E fl w)) = files w"
  by (simp add: registry_password_def Print_def LogError_def Let_def
      split: option.split sum.split)

lemma registry_password_flags:
  "registry_password E fl w = (Inr fl1, w1) \<Longrightarrow>
   e2eRegistryConfig fl1 = e2eRegistryConfig fl \<and> plugin fl1 = plugin fl"
  by (auto simp add: registry_password_def Let_def split: option.splits sum.splits if_splits)

lemma registry_password_outcome:
  "registry_password E fl w = (Inl out, w1) \<Longrightarrow> viper_password E \<noteq> None \<Longrightarrow> out = Exited 1"
  by (auto simp add: registry_password_def Let_def split: option.splits sum.splits if_splits)

lemma registry_password_ok:
  assumes "password_ok E fl"
  shows "\<exists>fl1 w1. registry_password E fl w = (Inr fl1, w1) \<and> errlog w1 = errlog w"
proof (cases "username fl = []")
  case True
  then show ?thesis by (simp add: registry_password_def)
next
  case False
  with assms obtain envPassword where v: "viper_password E = Some envPassword"
    and o: "envPassword \<noteq> [] \<or> (\<exists>b. ReadPassword E = Inr b)"
    by (cases "viper_password E"; cases "ReadPassword E") (auto simp add: password_ok_def)
  show ?thesis
  proof (cases "envPassword = []")
    case True
    with o obtain b where "ReadPassword E = Inr b" by blast
    with False v True show ?thesis
      by (simp add: registry_password_def Let_def Print_def)
  next
    case nonempty: False
    with False v show ?thesis by (simp add: registry_password_def)
  qed
qed

lemma pushImages_resolved_failed:
  "(\<And>version. sbc_Version E = Inr version \<Longrightarrow>
      \<exists>err. GetImages E (e2eRegistryConfig fl) version w = Inl err) \<Longrightarrow>
   \<exists>msg. pushImages_resolved E fl w = (Exited 1, LogError msg w)"
  by (fastforce simp add: pushImages_resolved_def split: option.split sum.split)

lemma pushImages_resolved_reports_resolution:
  "kubeconfig_Get E = None \<Longrightarrow> getSonobuoyClient E = None \<Longrightarrow>
   sbc_Version E = Inr version \<Longrightarrow> GetImages E [] version w = Inr upstreamImages \<Longrightarrow>
   GetImages E (e2eRegistryConfig fl) version w = Inl err \<Longrightarrow>
   pushImages_resolved E fl w =
     (Exited 1, LogError (Wrap err ''couldn't init upstream registry list'') w)"
  by (simp add: pushImages_resolved_def)

lemma pushImages_failed_resolution:
  assumes "\<And>version. sbc_Version E = Inr version \<Longrightarrow>
      \<exists>err. GetImages E (e2eRegistryConfig fl) version w = Inl err"
  shows "calls (snd (pushImages E fl w)) = calls w \<and>
         (viper_password E \<noteq> None \<longrightarrow> fst (pushImages E fl w) = Exited 1)"
proof -
  consider (a) "plugin fl \<noteq> ''e2e''"
    | (b) "plugin fl = ''e2e''" "os_IsNotExist (os_Stat E w (e2eRegistryConfig fl))"
    | (c) "plugin fl = ''e2e''" "\<not> os_IsNotExist (os_Stat E w (e2eRegistryConfig fl))"
    by blast
  then show ?thesis
  proof cases
    case a
    then show ?thesis by (simp add: pushImages_def LogError_def)
  next
    case b
    then show ?thesis by (simp add: pushImages_def LogError_def)
  next
    case c
    obtain r w1 where rp: "registry_password E fl w = (r, w1)"
      by (cases "registry_password E fl w")
    from registry_password_calls[of E fl w] registry_password_files[of E fl w] rp
    have k: "calls w1 = calls w" "files w1 = files w" by simp_all
    show ?thesis
    proof (cases r)
      case (Inl out)
      from c rp Inl have p: "pushImages E fl w = (out, w1)"
        by (simp add: pushImages_def)
      have "out = Exited 1" if "viper_password E \<noteq> None"
        using registry_password_outcome[of E fl w out w1] rp Inl that by simp
      with p k show ?thesis by simp
    next
      case (Inr fl1)
      from rp Inr have f: "e2eRegistryConfig fl1 = e2eRegistryConfig fl"
        using registry_password_flags[of E fl w fl1 w1] by simp
      have "\<exists>err. GetImages E (e2eRegistryConfig fl1) version w1 = Inl err"
        if "sbc_Version E = Inr version" for version
        using assms[OF that] by (simp only: f GetImages_files[OF k(2)])
      then obtain msg where m: "pushImages_resolved E fl1 w1 = (Exited 1, LogError msg w1)"
        using pushImages_resolved_failed[of E fl1 w1] by blast
      from c rp Inr have "pushImages E fl w = pushImages_resolved E fl1 w1"
        by (simp add: pushImages_def)
      with m k show ?thesis by (simp add: LogError_def)
    qed
  qed
qed

lemma pushImages_reports_resolution:
  assumes "plugin fl = ''e2e''" and "\<not> os_IsNotExist (os_Stat E w (e2eRegistryConfig fl))"
    and "password_ok E fl"
    and "kubeconfig_Get E = None" and "getSonobuoyClient E = None"
    and "sbc_Version E = Inr version" and "GetImages E [] version w = Inr upstreamImages"
    and "GetImages E (e2eRegistryConfig fl) version w = Inl err"
  shows "fst (pushImages E fl w) = Exited 1 \<and>
         errlog (snd (pushImages E fl w)) =
           errlog w @ [Wrap err ''couldn't init upstream registry list'']"
proof -
  from registry_password_ok[OF assms(3), of w] obtain fl1 w1
    where rp: "registry_password E fl w = (Inr fl1, w1)" and e: "errlog w1 = errlog w"
    by blast
  from registry_password_files[of E fl w] rp have k: "files w1 = files w" by simp
  from rp have f: "e2eRegistryConfig fl1 = e2eRegistryConfig fl"
    using registry_password_flags[of E fl w fl1 w1] by simp
  have g1: "GetImages E [] version w1 = Inr upstreamImages"
    using assms(7) by (simp only: GetImages_files[OF k])
  have g2: "GetImages E (e2eRegistryConfig fl1) version w1 = Inl err"
    using assms(8) by (simp only: f GetImages_files[OF k])
  from assms(1,2) rp have "pushImages E fl w = pushImages_resolved E fl1 w1"
    by (simp add: pushImages_def)
  also have "\<dots> = (Exited 1, LogError (Wrap err ''couldn't init upstream registry list'') w1)"
    using assms(4,5,6) g1 g2 by (rule pushImages_resolved_reports_resolution)
  finally show ?thesis by (simp add: LogError_def e)
qed


lemma GetE2EConfig_registries:
  assumes "Changed flags e2eRegistryConfigFlag"
    and "GetString flags e2eRegistryConfigFlag = Inr repoFile"
    and "ReadFile E w repoFile = Inr contents"
    and "yaml_Unmarshal E contents = Inl err"
  shows "set_registries E flags w c = Inl (Wrap err ''failed to parse yaml registry list:'')"
  using assms by (simp add: set_registries_def)

lemma set_focus_ok:
  "Changed flags e2eFocusFlag \<longrightarrow> (\<exists>v. GetString flags e2eFocusFlag = Inr v) \<Longrightarrow>
   \<exists>c. set_focus flags cfg = Inr c"
  by (cases "Changed flags e2eFocusFlag") (auto simp add: set_focus_def)

lemma set_skip_ok:
  "Changed flags e2eSkipFlag \<longrightarrow> (\<exists>v. GetString flags e2eSkipFlag = Inr v) \<Longrightarrow>
   \<exists>c. set_skip flags cfg = Inr c"
  by (cases "Changed flags e2eSkipFlag") (auto simp add: set_skip_def)

lemma set_parallel_ok:
  "Changed flags e2eParallelFlag \<longrightarrow> (\<exists>v. GetString flags e2eParallelFlag = Inr v) \<Longrightarrow>
   \<exists>c. set_parallel flags cfg = Inr c"
  by (cases "Changed flags e2eParallelFlag") (auto simp add: set_parallel_def)

text \<open>
  When the block of the registry flag fails with \<open>e\<close> whatever configuration it is given,
  \<^verbatim>\<open>GetE2EConfig\<close> returns an error, and it returns \<open>e\<close> when the earlier flags can be read.
\<close>

lemma GetE2EConfig_fails:
  assumes "\<And>c. set_registries E flags w c = Inl e"
  shows "(\<exists>e'. GetE2EConfig E cfg flags w = Inl e') \<and>
         ((\<forall>f \<in> {e2eFocusFlag, e2eSkipFlag, e2eParallelFlag}.
             Changed flags f \<longrightarrow> (\<exists>v. GetString flags f = Inr v)) \<longrightarrow>
          GetE2EConfig E cfg flags w = Inl e)"
proof (intro conjI impI)
  show "\<exists>e'. GetE2EConfig E cfg flags w = Inl e'"
    by (simp add: GetE2EConfig_def assms split: sum.split)
  assume a: "\<forall>f \<in> {e2eFocusFlag, e2eSkipFlag, e2eParallelFlag}.
             Changed flags f \<longrightarrow> (\<exists>v. GetString flags f = Inr v)"
  then have h: "Changed flags e2eFocusFlag \<longrightarrow> (\<exists>v. GetString flags e2eFocusFlag = Inr v)"
    "Changed flags e2eSkipFlag \<longrightarrow> (\<exists>v. GetString flags e2eSkipFlag = Inr v)"
    "Changed flags e2eParallelFlag \<longrightarrow> (\<exists>v. GetString flags e2eParallelFlag = Inr v)"
    by blast+
  from set_focus_ok[OF h(1)] obtain c1 where "set_focus flags cfg = Inr c1" by blast
  moreover from set_skip_ok[OF h(2)] obtain c2 where "set_skip flags c1 = Inr c2" by blast
  moreover from set_parallel_ok[OF h(3)] obtain c3 where "set_parallel flags c2 = Inr c3"
    by blast
  ultimately show "GetE2EConfig E cfg flags w = Inl e" by (simp add: GetE2EConfig_def assms)
qed


subsection \<open>A missing override file\<close>






subsection \<open>A malformed override file\<close>

text \<open>
  C6. When the override file can be read and its content does not parse as a mapping from
  strings to strings, with parse error \<open>err\<close>: \<^verbatim>\<open>GetE2EConfig\<close>, given the path by the registry
  flag, returns an error and no configuration, and the error is \<open>err\<close> wrapped as a failure to
  parse the registry list when the other changed flags can be read. \<^verbatim>\<open>GetImages\<close> with the
  path fails with the parse error of the resolution. \<^verbatim>\<open>deleteImages\<close> with the path exits
  with status 1 and \<^verbatim>\<open>pushImages\<close> with the path sends nothing to the engine either, and exits
  with status 1 when the password variable is a string. The error they log is the parse
  error of the resolution, for \<^verbatim>\<open>deleteImages\<close> when the cluster version is known, for
  \<^verbatim>\<open>pushImages\<close> when moreover the password step goes through and the built-in set resolves:
  both commands ask the cluster for its version before they resolve the image sets.
\<close>

theorem malformed_override_fails_fast:
  assumes "path_fault E path = None"
    and "files w path = Some contents"
    and "yaml_Unmarshal E contents = Inl err"
  shows "(Changed flags e2eRegistryConfigFlag \<and>
      GetString flags e2eRegistryConfigFlag = Inr path \<longrightarrow>
      (\<exists>e. GetE2EConfig E cfg flags w = Inl e) \<and>
      ((\<forall>f \<in> {e2eFocusFlag, e2eSkipFlag, e2eParallelFlag}.
          Changed flags f \<longrightarrow> (\<exists>v. GetString flags f = Inr v)) \<longrightarrow>
       GetE2EConfig E cfg flags w = Inl (Wrap err ''failed to parse yaml registry list:'')))
   \<and> (path \<noteq> [] \<and> e2eRegistryConfig fl = path \<longrightarrow>
      GetImages E path version w =
        Inl (Wrap (OverrideParseError err) ''couldn't init Registry List'')
      \<and> fst (deleteImages E fl w) = Exited 1
      \<and> calls (snd (deleteImages E fl w)) = calls w
      \<and> calls (snd (pushImages E fl w)) = calls w
      \<and> (viper_password E \<noteq> None \<longrightarrow> fst (pushImages E fl w) = Exited 1)
      \<and> (plugin fl = ''e2e'' \<and> kubeconfig_Get E = None \<and> getSonobuoyClient E = None \<and>
         sbc_Version E = Inr version \<longrightarrow>
         deleteImages E fl w =
           (Exited 1,
            LogError (Wrap (Wrap (OverrideParseError err) ''couldn't init Registry List'')
                        ''couldn't init upstream registry list'') w)
         \<and> (password_ok E fl \<and> GetImages E [] version w = Inr upstreamImages \<longrightarrow>
            fst (pushImages E fl w) = Exited 1 \<and>
            errlog (snd (pushImages E fl w)) =
              errlog w @ [Wrap (Wrap (OverrideParseError err) ''couldn't init Registry List'')
                            ''couldn't init upstream registry list''])))"
proof -
  have rf: "ReadFile E w path = Inr contents"
    using assms(1,2) by (simp add: ReadFile_def)
  have c: "(\<exists>e. GetE2EConfig E cfg flags w = Inl e) \<and>
      ((\<forall>f \<in> {e2eFocusFlag, e2eSkipFlag, e2eParallelFlag}.
          Changed flags f \<longrightarrow> (\<exists>v. GetString flags f = Inr v)) \<longrightarrow>
       GetE2EConfig E cfg flags w = Inl (Wrap err ''failed to parse yaml registry list:''))"
    if "Changed flags e2eRegistryConfigFlag \<and> GetString flags e2eRegistryConfigFlag = Inr path"
  proof (rule GetE2EConfig_fails)
    fix c0
    show "set_registries E flags w c0 = Inl (Wrap err ''failed to parse yaml registry list:'')"
      using that rf assms(3) by (intro GetE2EConfig_registries) blast+
  qed
  have i: "GetImages E path version w =
        Inl (Wrap (OverrideParseError err) ''couldn't init Registry List'')
      \<and> fst (deleteImages E fl w) = Exited 1
      \<and> calls (snd (deleteImages E fl w)) = calls w
      \<and> calls (snd (pushImages E fl w)) = calls w
      \<and> (viper_password E \<noteq> None \<longrightarrow> fst (pushImages E fl w) = Exited 1)
      \<and> (plugin fl = ''e2e'' \<and> kubeconfig_Get E = None \<and> getSonobuoyClient E = None \<and>
         sbc_Version E = Inr version \<longrightarrow>
         deleteImages E fl w =
           (Exited 1,
            LogError (Wrap (Wrap (OverrideParseError err) ''couldn't init Registry List'')
                        ''couldn't init upstream registry list'') w)
         \<and> (password_ok E fl \<and> GetImages E [] version w = Inr upstreamImages \<longrightarrow>
            fst (pushImages E fl w) = Exited 1 \<and>
            errlog (snd (pushImages E fl w)) =
              errlog w @ [Wrap (Wrap (OverrideParseError err) ''couldn't init Registry List'')
                            ''couldn't init upstream registry list'']))"
    if p: "path \<noteq> [] \<and> e2eRegistryConfig fl = path"
  proof -
    have g: "GetImages E (e2eRegistryConfig fl) v w =
        Inl (Wrap (OverrideParseError err) ''couldn't init Registry List'')" for v
      using p assms by (simp add: GetImages_malformed_file)
    have ne: "\<not> os_IsNotExist (os_Stat E w (e2eRegistryConfig fl))"
      using p assms(1,2) by (simp add: IsNotExist_iff)
    from g obtain msg where d: "deleteImages E fl w = (Exited 1, LogError msg w)"
      using deleteImages_failed_resolution[of E fl w] by blast
    then have d1: "fst (deleteImages E fl w) = Exited 1"
      "calls (snd (deleteImages E fl w)) = calls w"
      by (simp_all add: LogError_def)
    have pu: "calls (snd (pushImages E fl w)) = calls w \<and>
         (viper_password E \<noteq> None \<longrightarrow> fst (pushImages E fl w) = Exited 1)"
      using g by (intro pushImages_failed_resolution) blast
    have d2: "deleteImages E fl w =
           (Exited 1,
            LogError (Wrap (Wrap (OverrideParseError err) ''couldn't init Registry List'')
                        ''couldn't init upstream registry list'') w)"
      if "plugin fl = ''e2e'' \<and> kubeconfig_Get E = None \<and> getSonobuoyClient E = None \<and>
         sbc_Version E = Inr version"
      using that by (simp add: deleteImages_reports_resolution g)
    have p2: "fst (pushImages E fl w) = Exited 1 \<and>
            errlog (snd (pushImages E fl w)) =
              errlog w @ [Wrap (Wrap (OverrideParseError err) ''couldn't init Registry List'')
                            ''couldn't init upstream registry list'']"
      if "plugin fl = ''e2e'' \<and> kubeconfig_Get E = None \<and> getSonobuoyClient E = None \<and>
         sbc_Version E = Inr version"
        and "password_ok E fl \<and> GetImages E [] version w = Inr upstreamImages"
      using that ne g[of version]
      by (intro pushImages_reports_resolution[where version = version
            and upstreamImages = upstreamImages]) blast+
    from g[of version] p d1 pu d2 p2 show ?thesis by blast
  qed
  from c i show ?thesis by blast
qed


lemma GetImages_malformed:
  "GetImages env_override ''repos.yaml'' version world_malformed =
     Inl ''couldn't init Registry List: OverrideParseError: yaml: unmarshal errors''"
  by (simp add: GetImages_def NewRegistryList_def ReadFile_def env_override_def env_ok_def
      world_malformed_def override_yaml_def Wrap_def OverrideParseError_def)

lemma GetImages_builtin_malformed:
  "GetImages env_override [] ''1.18.0'' world_malformed =
     Inr [(''conformance'', conformance_img), (''busybox'', busybox_img)]"
  by (simp add: GetImages_def NewRegistryList_empty GetImageConfigs_def add_entry_def
      env_override_def env_ok_def conformance_img_def busybox_img_def)

theorem malformed_override_fails_fast_witness:
  "path_fault env_override ''repos.yaml'' = None
   \<and> files world_malformed ''repos.yaml'' = Some ''- a list''
   \<and> yaml_Unmarshal env_override ''- a list'' = Inl ''yaml: unmarshal errors''
   \<and> Changed flagset_registry e2eRegistryConfigFlag
   \<and> GetString flagset_registry e2eRegistryConfigFlag = Inr ''repos.yaml''
   \<and> GetE2EConfig env_override default_cfg flagset_registry world_malformed =
       Inl ''failed to parse yaml registry list:: yaml: unmarshal errors''
   \<and> e2eRegistryConfig flags_override = ''repos.yaml''
   \<and> GetImages env_override ''repos.yaml'' ''1.18.0'' world_malformed =
       Inl ''couldn't init Registry List: OverrideParseError: yaml: unmarshal errors''
   \<and> deleteImages env_override flags_override world_malformed =
       (Exited 1, world_malformed
          \<lparr>errlog := [''couldn't init upstream registry list: couldn't init Registry List: OverrideParseError: yaml: unmarshal errors'']\<rparr>)
   \<and> fst (pushImages env_override flags_override world_malformed) = Exited 1
   \<and> calls (snd (pushImages env_override flags_override world_malformed)) = []
   \<and> errlog (snd (pushImages env_override flags_override world_malformed)) =
       [''couldn't init upstream registry list: couldn't init Registry List: OverrideParseError: yaml: unmarshal errors'']"
proof -
  have a: "path_fault env_override ''repos.yaml'' = None"
    "files world_malformed ''repos.yaml'' = Some ''- a list''"
    "yaml_Unmarshal env_override ''- a list'' = Inl ''yaml: unmarshal errors''"
    by (simp_all add: world_malformed_def env_override_def env_ok_def override_yaml_def)
  have f: "Changed flagset_registry e2eRegistryConfigFlag"
    "GetString flagset_registry e2eRegistryConfigFlag = Inr ''repos.yaml''"
    "\<forall>f \<in> {e2eFocusFlag, e2eSkipFlag, e2eParallelFlag}.
          Changed flagset_registry f \<longrightarrow> (\<exists>v. GetString flagset_registry f = Inr v)"
    by (simp_all add: flagset_registry_def e2eRegistryConfigFlag_def e2eFocusFlag_def
        e2eSkipFlag_def e2eParallelFlag_def)
  have c: "e2eRegistryConfig flags_override = ''repos.yaml''" "plugin flags_override = ''e2e''"
    "kubeconfig_Get env_override = None" "getSonobuoyClient env_override = None"
    "sbc_Version env_override = Inr ''1.18.0''" "viper_password env_override \<noteq> None"
    "password_ok env_override flags_override"
    "calls world_malformed = []" "errlog world_malformed = []"
    by (simp_all add: flags_override_def flags_e2e_def env_override_def env_ok_def
        world_malformed_def world_init_def password_ok_def)
  have n: "''repos.yaml'' \<noteq> []" by simp
  note t = malformed_override_fails_fast
    [OF a, where flags = flagset_registry and cfg = default_cfg and fl = flags_override
       and version = "''1.18.0''"
       and upstreamImages = "[(''conformance'', conformance_img), (''busybox'', busybox_img)]"]
  from t f have r1: "GetE2EConfig env_override default_cfg flagset_registry world_malformed =
       Inl (Wrap ''yaml: unmarshal errors'' ''failed to parse yaml registry list:'')"
    by blast
  from t n c(1-5) have r2: "deleteImages env_override flags_override world_malformed =
           (Exited 1,
            LogError (Wrap (Wrap (OverrideParseError ''yaml: unmarshal errors'')
                          ''couldn't init Registry List'')
                        ''couldn't init upstream registry list'') world_malformed)"
    by blast
  from t n c(1-5,7) GetImages_builtin_malformed
  have r3: "fst (pushImages env_override flags_override world_malformed) = Exited 1 \<and>
            errlog (snd (pushImages env_override flags_override world_malformed)) =
              errlog world_malformed @
                [Wrap (Wrap (OverrideParseError ''yaml: unmarshal errors'')
                    ''couldn't init Registry List'') ''couldn't init upstream registry list'']"
    by blast
  from t n c(1) have r4: "calls (snd (pushImages env_override flags_override world_malformed)) =
      calls world_malformed"
    by blast
  from a f(1,2) r1 r2 r3 r4 show ?thesis
    by (simp add: c(1,8,9) GetImages_malformed LogError_def Wrap_def OverrideParseError_def)
qed

end
